theory Spec2Isabelle
  imports Complex_Main "HOL-Library.Product_Lexorder" "HOL-Library.Log_Nat" "HOL-Library.Multiset"
begin

section \<open>Repository snapshot cache of devmatch-backend\<close>

text \<open>
  A shallow embedding of the repository snapshot cache: the Mongoose model
  \<^verbatim>\<open>RepoSnapshot\<close> (src/models/RepoSnapshot.js), the GitHub client wrapper
  \<^verbatim>\<open>GitHubService\<close> and the service layer \<^verbatim>\<open>RepoService\<close>.

  Conventions of the embedding.
  \<^item> An \<^verbatim>\<open>async\<close> function becomes a function from the world before the call to its
    outcome and the world after it. The world is the document collection plus the log
    of HTTP requests sent to GitHub. A call that is awaited on its own runs to its end
    with nothing else in between; the synchronisations that \<^verbatim>\<open>bulkSyncRepositories\<close>
    starts together are interleaved at their \<^verbatim>\<open>await\<close>s.
  \<^item> A thrown value is the \<open>Inl\<close> of a sum; a returned value is the \<open>Inr\<close>.
  \<^item> \<^verbatim>\<open>Date.now()\<close> and \<^verbatim>\<open>new Date()\<close> read one clock value \<open>now\<close>
    (milliseconds since the epoch) that the operation receives as an argument.
  \<^item> Strings are lists of 8-bit characters; dates are millisecond counts, whose
    differences are exact.
  \<^item> The other JavaScript numbers are IEEE 754 doubles: a finite double is the rational
    number it denotes, and every arithmetic operation rounds its exact result to the
    nearest double, a tie going to the even one. The two zeros are not told apart.
  \<^item> A repository payload of GitHub passes the validation of the Mongoose schema as it is
    and is stored as it is. Validation is part of the embedding for what the services
    fetch or compute besides the payload: \<^verbatim>\<open>save\<close> rejects a document whose README is
    longer than 50000 characters or that holds a number that is \<open>NaN\<close>. The fields
    \<^verbatim>\<open>createdAt\<close> and \<^verbatim>\<open>updatedAt\<close> that Mongoose maintains by itself are left out.
\<close>

subsection \<open>Errors (src/utils/ApiError.js)\<close>

datatype error =
    ApiError (statusCode: nat) (message: string) (isOperational: bool)
  | OtherError (message: string)

definition badRequest :: "string \<Rightarrow> error" where
  "badRequest msg = ApiError 400 msg True"

definition unauthorized :: "string \<Rightarrow> error" where
  "unauthorized msg = ApiError 401 msg True"

definition notFound :: "string \<Rightarrow> error" where
  "notFound msg = ApiError 404 msg True"

definition tooManyRequests :: "string \<Rightarrow> error" where
  "tooManyRequests msg = ApiError 429 msg True"

definition internal :: "string \<Rightarrow> error" where
  "internal msg = ApiError 500 msg False"

text \<open>\<^verbatim>\<open>error.statusCode === n\<close>: false for a thrown value without that field.\<close>

fun statusCode_is :: "error \<Rightarrow> nat \<Rightarrow> bool" where
  "statusCode_is (ApiError s _ _) n = (s = n)"
| "statusCode_is (OtherError _) n = False"

type_synonym 'a result = "error + 'a"

subsection \<open>JavaScript numbers and strings\<close>

datatype number = Num rat | Infinity | NegInfinity | NaN

text \<open>
  The binary exponent of a positive rational \<open>a\<close>: the \<open>e\<close> with \<open>2\<^sup>e \<le> a < 2\<^sup>e\<^sup>+\<^sup>1\<close>.
\<close>

definition exponent :: "rat \<Rightarrow> int" where
  "exponent a =
     (let (p, q) = quotient_of a;
          d = bitlen p - bitlen q
      in if 2 powi d \<le> a then d else d - 1)"

text \<open>The nearest integer, a tie going to the even one.\<close>

definition round_even :: "rat \<Rightarrow> int" where
  "round_even y =
     (let f = \<lfloor>y\<rfloor>; r = y - of_int f
      in if r < 1 / 2 then f
         else if 1 / 2 < r then f + 1
         else if even f then f else f + 1)"

definition overflow_threshold :: rat where
  "overflow_threshold = 2 ^ 1024"

text \<open>
  The double nearest to an exact result: 53 significant bits, exponents from \<open>-1022\<close>
  (below it the spacing stays \<open>2\<^sup>-\<^sup>1\<^sup>0\<^sup>7\<^sup>4\<close>), an infinity when the rounded value reaches
  \<open>2\<^sup>1\<^sup>0\<^sup>2\<^sup>4\<close>.
\<close>

definition double :: "rat \<Rightarrow> number" where
  "double x =
     (if x = 0 then Num 0
      else
        (let a = \<bar>x\<bar>;
             e = max (exponent a) (- 1022);
             ulp = 2 powi (e - 52);
             v = of_int (round_even (a / ulp)) * ulp
         in if overflow_threshold \<le> v then (if 0 < x then Infinity else NegInfinity)
            else Num (sgn x * v)))"

definition signed_infinity :: "bool \<Rightarrow> number" where
  "signed_infinity positive = (if positive then Infinity else NegInfinity)"

text \<open>The operators \<^verbatim>\<open>+\<close>, \<^verbatim>\<open>*\<close> and \<^verbatim>\<open>/\<close> on numbers.\<close>

fun js_add :: "number \<Rightarrow> number \<Rightarrow> number" where
  "js_add (Num a) (Num b) = double (a + b)"
| "js_add NaN _ = NaN"
| "js_add _ NaN = NaN"
| "js_add Infinity NegInfinity = NaN"
| "js_add NegInfinity Infinity = NaN"
| "js_add Infinity _ = Infinity"
| "js_add _ Infinity = Infinity"
| "js_add NegInfinity _ = NegInfinity"
| "js_add _ NegInfinity = NegInfinity"

fun js_mul :: "number \<Rightarrow> number \<Rightarrow> number" where
  "js_mul (Num a) (Num b) = double (a * b)"
| "js_mul NaN _ = NaN"
| "js_mul _ NaN = NaN"
| "js_mul (Num a) Infinity = (if a = 0 then NaN else signed_infinity (0 < a))"
| "js_mul (Num a) NegInfinity = (if a = 0 then NaN else signed_infinity (a < 0))"
| "js_mul Infinity (Num b) = (if b = 0 then NaN else signed_infinity (0 < b))"
| "js_mul NegInfinity (Num b) = (if b = 0 then NaN else signed_infinity (b < 0))"
| "js_mul Infinity Infinity = Infinity"
| "js_mul NegInfinity NegInfinity = Infinity"
| "js_mul Infinity NegInfinity = NegInfinity"
| "js_mul NegInfinity Infinity = NegInfinity"

fun js_div :: "number \<Rightarrow> number \<Rightarrow> number" where
  "js_div (Num a) (Num b) =
     (if b = 0 then (if a = 0 then NaN else signed_infinity (0 < a)) else double (a / b))"
| "js_div NaN _ = NaN"
| "js_div _ NaN = NaN"
| "js_div (Num a) Infinity = Num 0"
| "js_div (Num a) NegInfinity = Num 0"
| "js_div Infinity (Num b) = signed_infinity (0 \<le> b)"
| "js_div NegInfinity (Num b) = signed_infinity (b < 0)"
| "js_div Infinity Infinity = NaN"
| "js_div Infinity NegInfinity = NaN"
| "js_div NegInfinity Infinity = NaN"
| "js_div NegInfinity NegInfinity = NaN"

text \<open>\<^verbatim>\<open>x > 0\<close> on a number.\<close>

fun js_positive :: "number \<Rightarrow> bool" where
  "js_positive (Num x) = (0 < x)"
| "js_positive Infinity = True"
| "js_positive NegInfinity = False"
| "js_positive NaN = False"

text \<open>\<^verbatim>\<open>Math.round\<close>: the nearest integer, a tie going up; \<^verbatim>\<open>Math.ceil\<close>.\<close>

fun Math_round :: "number \<Rightarrow> number" where
  "Math_round (Num x) = Num (of_int \<lfloor>x + 1 / 2\<rfloor>)"
| "Math_round Infinity = Infinity"
| "Math_round NegInfinity = NegInfinity"
| "Math_round NaN = NaN"

fun Math_ceil :: "number \<Rightarrow> number" where
  "Math_ceil (Num x) = Num (of_int \<lceil>x\<rceil>)"
| "Math_ceil Infinity = Infinity"
| "Math_ceil NegInfinity = NegInfinity"
| "Math_ceil NaN = NaN"

text \<open>An integer of a JSON body as \<^verbatim>\<open>JSON.parse\<close> reads it.\<close>

definition json_number :: "nat \<Rightarrow> number" where
  "json_number n = double (of_nat n)"

text \<open>White space as \<^verbatim>\<open>String.prototype.trim\<close> and \<^verbatim>\<open>parseInt\<close> skip it, within 8-bit characters.\<close>

definition isWhiteSpace :: "char \<Rightarrow> bool" where
  "isWhiteSpace c = (c \<in> set [CHR 0x09, CHR 0x0A, CHR 0x0B, CHR 0x0C, CHR 0x0D, CHR 0x20, CHR 0xA0])"

definition trim :: "string \<Rightarrow> string" where
  "trim s = rev (dropWhile isWhiteSpace (rev (dropWhile isWhiteSpace s)))"

definition isDigit :: "char \<Rightarrow> bool" where
  "isDigit c = (48 \<le> (of_char c :: nat) \<and> (of_char c :: nat) \<le> 57)"

definition digitsValue :: "string \<Rightarrow> int" where
  "digitsValue ds = foldl (\<lambda>acc c. 10 * acc + (int (of_char c) - 48)) 0 ds"

text \<open>\<^verbatim>\<open>parseInt(s, 10)\<close>; \<open>None\<close> is \<open>NaN\<close>.\<close>

definition parseInt :: "string \<Rightarrow> int option" where
  "parseInt s =
     (let t = dropWhile isWhiteSpace s;
          (sgn, u) = (case t of
                        c # r \<Rightarrow> if c = CHR ''-'' then (- 1, r)
                                 else if c = CHR ''+'' then (1, r) else (1, t)
                      | [] \<Rightarrow> (1, t));
          ds = takeWhile isDigit u
      in if ds = [] then None else Some (sgn * digitsValue ds))"

text \<open>\<^verbatim>\<open>s.split("/")\<close>: the pieces between the slashes, one piece for a string without any.\<close>

fun split_slash :: "string \<Rightarrow> string list" where
  "split_slash [] = [[]]"
| "split_slash (c # cs) =
     (if c = CHR ''/'' then [] # split_slash cs
      else (case split_slash cs of p # ps \<Rightarrow> (c # p) # ps | [] \<Rightarrow> [[c]]))"

text \<open>A value interpolated in a template literal; \<open>None\<close> is \<^verbatim>\<open>undefined\<close>.\<close>

fun interpolate :: "string option \<Rightarrow> string" where
  "interpolate None = ''undefined''"
| "interpolate (Some s) = s"

subsection \<open>Data model\<close>

text \<open>The repository object of the GitHub REST API, as far as the cache reads it.\<close>

record gh_repo =
  gh_id :: int
  gh_owner_login :: string
  gh_owner_avatar_url :: "string option"
  gh_name :: string
  gh_full_name :: string
  gh_description :: "string option"
  gh_html_url :: string
  gh_clone_url :: "string option"
  gh_language :: "string option"
  gh_stargazers_count :: int
  gh_forks_count :: int
  gh_watchers_count :: int
  gh_open_issues_count :: int
  gh_private :: bool
  gh_fork :: bool
  gh_default_branch :: string
  gh_topics :: "string list option"
  gh_license_spdx_id :: "string option"
  gh_created_at :: "int option"
  gh_updated_at :: "int option"
  gh_pushed_at :: "int option"

record LanguageEntry =
  lang_name :: string
  bytes :: number
  percentage :: number

text \<open>A document of the \<^verbatim>\<open>RepoSnapshot\<close> collection; \<open>oid\<close> is Mongo's \<^verbatim>\<open>_id\<close>.\<close>

record RepoSnapshot =
  oid :: nat
  githubId :: int
  ownerLogin :: string
  name :: string
  fullName :: string
  description :: "string option"
  htmlUrl :: string
  cloneUrl :: "string option"
  language :: "string option"
  languages :: "LanguageEntry list"
  stars :: int
  forks :: int
  watchers :: int
  openIssues :: int
  isPrivate :: bool
  isFork :: bool
  defaultBranch :: string
  topics :: "string list"
  license :: "string option"
  githubCreatedAt :: "int option"
  githubUpdatedAt :: "int option"
  githubPushedAt :: "int option"
  readme :: "string option"
  readmeFetchedAt :: "int option"
  aiSummary :: "string option"
  aiTechStack :: "string list"
  aiComplexityLevel :: "string option"
  aiRoleFit :: "string list"
  aiGeneratedAt :: "int option"
  lastSyncedAt :: "int option"
  syncError :: "string option"

text \<open>HTTP requests that reach GitHub, in the order they are sent.\<close>

datatype request =
    ReposGet string
  | RepositoriesGet int
  | ReadmeGet string
  | LanguagesGet string
  | SearchGet string string string int int

record world =
  docs :: "RepoSnapshot list"
  requests :: "request list"

subsection \<open>The collection\<close>

definition findById :: "nat \<Rightarrow> RepoSnapshot list \<Rightarrow> RepoSnapshot option" where
  "findById i ds = find (\<lambda>d. oid d = i) ds"

definition findOne_githubId :: "int \<Rightarrow> RepoSnapshot list \<Rightarrow> RepoSnapshot option" where
  "findOne_githubId g ds = find (\<lambda>d. githubId d = g) ds"

definition findOne_fullName :: "string \<Rightarrow> RepoSnapshot list \<Rightarrow> RepoSnapshot option" where
  "findOne_fullName n ds = find (\<lambda>d. fullName d = n) ds"

text \<open>\<^verbatim>\<open>doc.save()\<close>: the stored document with the same \<^verbatim>\<open>_id\<close> is replaced, a new document is appended.\<close>

definition save_doc :: "RepoSnapshot \<Rightarrow> RepoSnapshot list \<Rightarrow> RepoSnapshot list" where
  "save_doc doc ds =
     (if list_ex (\<lambda>d. oid d = oid doc) ds
      then map (\<lambda>d. if oid d = oid doc then doc else d) ds
      else ds @ [doc])"

definition save :: "RepoSnapshot \<Rightarrow> world \<Rightarrow> world" where
  "save doc w = w\<lparr>docs := save_doc doc (docs w)\<rparr>"

text \<open>An \<^verbatim>\<open>_id\<close> no stored document has.\<close>

definition newObjectId :: "RepoSnapshot list \<Rightarrow> nat" where
  "newObjectId ds = Suc (fold max (map oid ds) 0)"

text \<open>\<^verbatim>\<open>new this({ githubId })\<close>: the schema defaults; required strings are still unset.\<close>

definition new_RepoSnapshot :: "int \<Rightarrow> nat \<Rightarrow> int \<Rightarrow> RepoSnapshot" where
  "new_RepoSnapshot now i g =
     \<lparr>oid = i, githubId = g, ownerLogin = [], name = [], fullName = [],
      description = None, htmlUrl = [], cloneUrl = None, language = None, languages = [],
      stars = 0, forks = 0, watchers = 0, openIssues = 0, isPrivate = False, isFork = False,
      defaultBranch = ''main'', topics = [], license = None,
      githubCreatedAt = None, githubUpdatedAt = None, githubPushedAt = None,
      readme = None, readmeFetchedAt = None,
      aiSummary = None, aiTechStack = [], aiComplexityLevel = None, aiRoleFit = [],
      aiGeneratedAt = None, lastSyncedAt = Some now, syncError = None\<rparr>"

text \<open>
  What the schema's validation checks of a document beyond the GitHub payload: the README
  has at most 50000 characters (\<^verbatim>\<open>maxlength\<close>) and no number of the language list is
  \<open>NaN\<close> (a \<^verbatim>\<open>Number\<close> path does not cast it). \<^verbatim>\<open>doc.save()\<close> rejects otherwise, with
  Mongoose's validation error, which has no \<^verbatim>\<open>statusCode\<close>; its message is shortened here.
\<close>

definition schema_accepts :: "RepoSnapshot \<Rightarrow> bool" where
  "schema_accepts doc =
     ((case readme doc of None \<Rightarrow> True | Some text' \<Rightarrow> length text' \<le> 50000)
      \<and> list_all (\<lambda>entry. bytes entry \<noteq> NaN \<and> percentage entry \<noteq> NaN) (languages doc))"

definition validationError :: error where
  "validationError = OtherError ''RepoSnapshot validation failed''"

definition save_validated :: "RepoSnapshot \<Rightarrow> world \<Rightarrow> world result" where
  "save_validated doc w = (if schema_accepts doc then Inr (save doc w) else Inl validationError)"

text \<open>
  The error of the unique index on \<^verbatim>\<open>githubId\<close> when a second document for a GitHub id is
  inserted; it has no \<^verbatim>\<open>statusCode\<close> either, and its message is shortened too.
\<close>

definition duplicateKey :: error where
  "duplicateKey = OtherError ''E11000 duplicate key error''"

subsection \<open>Model methods (src/models/RepoSnapshot.js)\<close>

definition needsSync :: "int \<Rightarrow> RepoSnapshot \<Rightarrow> bool" where
  "needsSync now this =
     (case lastSyncedAt this of
        None \<Rightarrow> True
      | Some t \<Rightarrow>
          (let hoursSinceSync = real_of_int (now - t) / (1000 * 60 * 60)
           in hoursSinceSync > 24))"

text \<open>\<^verbatim>\<open>x || null\<close> on a string: the empty string is falsy.\<close>

fun or_null :: "string option \<Rightarrow> string option" where
  "or_null None = None"
| "or_null (Some s) = (if s = [] then None else Some s)"

definition updateFromGitHub :: "int \<Rightarrow> gh_repo \<Rightarrow> RepoSnapshot \<Rightarrow> RepoSnapshot" where
  "updateFromGitHub now githubData this =
     this\<lparr>ownerLogin := gh_owner_login githubData,
          name := gh_name githubData,
          fullName := gh_full_name githubData,
          description := gh_description githubData,
          htmlUrl := gh_html_url githubData,
          cloneUrl := gh_clone_url githubData,
          language := gh_language githubData,
          stars := gh_stargazers_count githubData,
          forks := gh_forks_count githubData,
          watchers := gh_watchers_count githubData,
          openIssues := gh_open_issues_count githubData,
          isPrivate := gh_private githubData,
          isFork := gh_fork githubData,
          defaultBranch := gh_default_branch githubData,
          topics := (case gh_topics githubData of None \<Rightarrow> [] | Some ts \<Rightarrow> ts),
          license := or_null (gh_license_spdx_id githubData),
          githubCreatedAt := gh_created_at githubData,
          githubUpdatedAt := gh_updated_at githubData,
          githubPushedAt := gh_pushed_at githubData,
          lastSyncedAt := Some now,
          syncError := None\<rparr>"

definition findOrCreateFromGitHub ::
  "int \<Rightarrow> int \<Rightarrow> gh_repo \<Rightarrow> world \<Rightarrow> RepoSnapshot \<times> world" where
  "findOrCreateFromGitHub now gid githubData w =
     (case findOne_githubId gid (docs w) of
        Some repo \<Rightarrow>
          (let repo' = updateFromGitHub now githubData repo
           in (repo', save repo' w))
      | None \<Rightarrow>
          (let repo = new_RepoSnapshot now (newObjectId (docs w)) gid;
               repo' = updateFromGitHub now githubData repo
           in (repo', save repo' w)))"

subsection \<open>The GitHub client (src/services/GitHubService.js)\<close>

text \<open>
  What the HTTP client gets back: a 2xx body, another status with the \<^verbatim>\<open>message\<close> of its
  body, or no response at all. GitHub itself is a parameter: one response function for
  each endpoint.
\<close>

datatype 'a response = Success 'a | ErrorStatus nat "string option" | NoResponse

record search_data =
  items :: "gh_repo list"
  total_count :: int

record github =
  repos_endpoint :: "string \<Rightarrow> gh_repo response"
  repositories_endpoint :: "int \<Rightarrow> gh_repo response"
  readme_endpoint :: "string \<Rightarrow> string response"
  languages_endpoint :: "string \<Rightarrow> (string \<times> nat) list response"
  search_endpoint :: "string \<Rightarrow> string \<Rightarrow> string \<Rightarrow> int \<Rightarrow> int \<Rightarrow> search_data response"

text \<open>The response interceptor installed in the constructor.\<close>

fun interceptor :: "'a response \<Rightarrow> 'a result" where
  "interceptor (Success data) = Inr data"
| "interceptor (ErrorStatus status msg) =
     (if status = 404 then Inl (notFound ''GitHub resource not found'')
      else if status = 403
        then Inl (tooManyRequests ''GitHub API rate limit exceeded. Please try again later.'')
      else if status = 401 then Inl (unauthorized ''GitHub authentication failed'')
      else Inl (badRequest (case or_null msg of Some m \<Rightarrow> m | None \<Rightarrow> ''GitHub API error'')))"
| "interceptor NoResponse = Inl (internal ''Failed to connect to GitHub API'')"

text \<open>\<^verbatim>\<open>this.client.get\<close>: the request is logged, its response goes through the interceptor.\<close>

definition client_get :: "request \<Rightarrow> 'a response \<Rightarrow> world \<Rightarrow> 'a result \<times> world" where
  "client_get req resp w = (interceptor resp, w\<lparr>requests := requests w @ [req]\<rparr>)"

record GitHubSearchOptions =
  g_language :: "string option"
  g_sort :: "string option"
  g_order :: "string option"
  g_page :: "int option"
  g_perPage :: "int option"

record GitHubSearchResult =
  r_items :: "gh_repo list"
  r_total_count :: int
  r_page :: int
  r_perPage :: int

text \<open>A destructuring default and the truthiness of a string.\<close>

fun default_to :: "'a \<Rightarrow> 'a option \<Rightarrow> 'a" where
  "default_to d None = d"
| "default_to d (Some x) = x"

fun truthy :: "string option \<Rightarrow> bool" where
  "truthy None = False"
| "truthy (Some s) = (s \<noteq> [])"

definition searchRepositories ::
  "github \<Rightarrow> string \<Rightarrow> GitHubSearchOptions \<Rightarrow> world \<Rightarrow> GitHubSearchResult result \<times> world" where
  "searchRepositories gh query options w =
     (let sort = default_to ''stars'' (g_sort options);
          order = default_to ''desc'' (g_order options);
          page = default_to 1 (g_page options);
          perPage = default_to 10 (g_perPage options);
          searchQuery = (case or_null (g_language options) of
                           Some l \<Rightarrow> query @ '' language:'' @ l
                         | None \<Rightarrow> query);
          per_page = min perPage 100
      in case client_get (SearchGet searchQuery sort order page per_page)
                (search_endpoint gh searchQuery sort order page per_page) w of
           (Inl error, w') \<Rightarrow> (Inl error, w')
         | (Inr data, w') \<Rightarrow>
             (Inr \<lparr>r_items = items data, r_total_count = total_count data,
                   r_page = page, r_perPage = perPage\<rparr>, w'))"

definition getRepository :: "github \<Rightarrow> string \<Rightarrow> string \<Rightarrow> world \<Rightarrow> gh_repo result \<times> world" where
  "getRepository gh owner repo w =
     (let path = owner @ ''/'' @ repo
      in client_get (ReposGet path) (repos_endpoint gh path) w)"

definition getRepositoryByFullName :: "github \<Rightarrow> string \<Rightarrow> world \<Rightarrow> gh_repo result \<times> world" where
  "getRepositoryByFullName gh fullName' w =
     client_get (ReposGet fullName') (repos_endpoint gh fullName') w"

definition getReadme ::
  "github \<Rightarrow> string \<Rightarrow> string \<Rightarrow> world \<Rightarrow> string option result \<times> world" where
  "getReadme gh owner repo w =
     (let path = owner @ ''/'' @ repo
      in case client_get (ReadmeGet path) (readme_endpoint gh path) w of
           (Inr data, w') \<Rightarrow> (Inr (Some data), w')
         | (Inl error, w') \<Rightarrow>
             if statusCode_is error 404 then (Inr None, w') else (Inl error, w'))"

definition getLanguages ::
  "github \<Rightarrow> string \<Rightarrow> string \<Rightarrow> world \<Rightarrow> (string \<times> nat) list result \<times> world" where
  "getLanguages gh owner repo w =
     (let path = owner @ ''/'' @ repo
      in client_get (LanguagesGet path) (languages_endpoint gh path) w)"

text \<open>
  The language list that \<^verbatim>\<open>syncRepository\<close> builds from the byte map: whole percents,
  zero when the total is not above zero.
\<close>

definition syncLanguages :: "(string \<times> nat) list \<Rightarrow> LanguageEntry list" where
  "syncLanguages languages' =
     (let totalBytes = foldl js_add (Num 0) (map (\<lambda>(name', bytes'). json_number bytes') languages')
      in map (\<lambda>(name', bytes').
                \<lparr>lang_name = name', bytes = json_number bytes',
                 percentage =
                   (if js_positive totalBytes
                    then Math_round (js_mul (js_div (json_number bytes') totalBytes) (Num 100))
                    else Num 0)\<rparr>)
           languages')"

text \<open>The \<^verbatim>\<open>catch\<close> of \<^verbatim>\<open>syncRepository\<close>: a 404 becomes a not-found of its own, the rest is rethrown.\<close>

definition syncRepository_catch :: "string \<Rightarrow> string \<Rightarrow> error \<Rightarrow> error" where
  "syncRepository_catch owner repo error =
     (if statusCode_is error 404
      then notFound (''Repository '' @ owner @ ''/'' @ repo @ '' not found on GitHub'')
      else error)"

definition syncRepository ::
  "github \<Rightarrow> int \<Rightarrow> string \<Rightarrow> string \<Rightarrow> world \<Rightarrow> RepoSnapshot result \<times> world" where
  "syncRepository gh now owner repo w =
     (case getRepository gh owner repo w of
        (Inl error, w1) \<Rightarrow> (Inl (syncRepository_catch owner repo error), w1)
      | (Inr ghRepo, w1) \<Rightarrow>
          (let (savedRepo, w2) = findOrCreateFromGitHub now (gh_id ghRepo) ghRepo w1;
               (savedRepo, w3) =
                 (if \<not> truthy (readme savedRepo) \<or> readmeFetchedAt savedRepo = None
                  then (case getReadme gh owner repo w2 of
                          (Inr readme', w') \<Rightarrow>
                            (if truthy readme'
                             then (savedRepo\<lparr>readme := readme', readmeFetchedAt := Some now\<rparr>, w')
                             else (savedRepo, w'))
                        | (Inl err, w') \<Rightarrow> (savedRepo, w'))
                  else (savedRepo, w2));
               (savedRepo, w4) =
                 (if languages savedRepo = []
                  then (case getLanguages gh owner repo w3 of
                          (Inr languages', w') \<Rightarrow>
                            (savedRepo\<lparr>languages := syncLanguages languages'\<rparr>, w')
                        | (Inl err, w') \<Rightarrow> (savedRepo, w'))
                  else (savedRepo, w3))
           in case save_validated savedRepo w4 of
                Inr w5 \<Rightarrow> (Inr savedRepo, w5)
              | Inl error \<Rightarrow> (Inl (syncRepository_catch owner repo error), w4)))"

text \<open>The freshness test written inline in \<^verbatim>\<open>getRepositoryById\<close>: less than one hour old.\<close>

definition cachedIsFresh :: "int \<Rightarrow> RepoSnapshot \<Rightarrow> bool" where
  "cachedIsFresh now snapshot =
     (case lastSyncedAt snapshot of
        None \<Rightarrow> False
      | Some t \<Rightarrow>
          (let hoursSinceSync = real_of_int (now - t) / (1000 * 60 * 60)
           in hoursSinceSync < 1))"

text \<open>\<^verbatim>\<open>const [owner, repo] = full_name.split("/")\<close>, each then interpolated in a path.\<close>

definition owner_and_repo :: "string \<Rightarrow> string \<times> string" where
  "owner_and_repo full_name =
     (case split_slash full_name of
        a # b # _ \<Rightarrow> (a, b)
      | [a] \<Rightarrow> (a, interpolate None)
      | [] \<Rightarrow> (interpolate None, interpolate None))"

definition getRepositoryById ::
  "github \<Rightarrow> int \<Rightarrow> string \<Rightarrow> world \<Rightarrow> RepoSnapshot result \<times> world" where
  "getRepositoryById gh now repoId w =
     (case parseInt repoId of
        None \<Rightarrow> (Inl (badRequest ''Invalid repository ID''), w)
      | Some gid \<Rightarrow>
          (let snapshot = findOne_githubId gid (docs w)
           in case (case snapshot of
                      Some s \<Rightarrow> if cachedIsFresh now s then Some s else None
                    | None \<Rightarrow> None) of
                Some s \<Rightarrow> (Inr s, w)
              | None \<Rightarrow>
                  (case (case client_get (RepositoriesGet gid) (repositories_endpoint gh gid) w of
                           (Inl error, w1) \<Rightarrow> (Inl error, w1)
                         | (Inr githubRepo, w1) \<Rightarrow>
                             (let (owner, repo) = owner_and_repo (gh_full_name githubRepo)
                              in syncRepository gh now owner repo w1)) of
                     (Inr synced, w2) \<Rightarrow> (Inr synced, w2)
                   | (Inl error, w2) \<Rightarrow>
                       (case snapshot of
                          Some s \<Rightarrow> (Inr s, w2)
                        | None \<Rightarrow> (Inl error, w2)))))"

subsection \<open>Synchronisations that run together\<close>

text \<open>
  \<^verbatim>\<open>bulkSyncRepositories\<close> starts a \<^verbatim>\<open>syncRepository\<close> for every target before it awaits
  any of them, so the synchronisations are interleaved: each runs from one \<^verbatim>\<open>await\<close> to
  the next when the operation it waits for completes, and the order of the completions
  is not in the hands of the code. A task is a \<^verbatim>\<open>syncRepository\<close> stopped at an \<^verbatim>\<open>await\<close>:
  it waits for the repository, for the \<^verbatim>\<open>findOne\<close> of \<^verbatim>\<open>findOrCreateFromGitHub\<close>, for the
  \<^verbatim>\<open>save\<close> of the document that this created or updated, for the README, for the
  languages, for the last \<^verbatim>\<open>save\<close>, or it is settled.
\<close>

datatype task =
    AwaitRepository
  | AwaitFindOne gh_repo
  | AwaitInsert gh_repo
  | AwaitUpdate RepoSnapshot
  | AwaitReadme RepoSnapshot
  | AwaitLanguages RepoSnapshot
  | AwaitSave RepoSnapshot
  | Settled "RepoSnapshot result"

text \<open>
  From the test of the languages on, and from the test of the README on: the request is
  sent and the task awaits the response, or the step is skipped.
\<close>

definition check_languages :: "string \<Rightarrow> string \<Rightarrow> RepoSnapshot \<Rightarrow> world \<Rightarrow> task \<times> world" where
  "check_languages owner repo savedRepo w =
     (if languages savedRepo = []
      then (AwaitLanguages savedRepo,
            w\<lparr>requests := requests w @ [LanguagesGet (owner @ ''/'' @ repo)]\<rparr>)
      else (AwaitSave savedRepo, w))"

definition check_readme :: "string \<Rightarrow> string \<Rightarrow> RepoSnapshot \<Rightarrow> world \<Rightarrow> task \<times> world" where
  "check_readme owner repo savedRepo w =
     (if \<not> truthy (readme savedRepo) \<or> readmeFetchedAt savedRepo = None
      then (AwaitReadme savedRepo,
            w\<lparr>requests := requests w @ [ReadmeGet (owner @ ''/'' @ repo)]\<rparr>)
      else check_languages owner repo savedRepo w)"

text \<open>
  The awaited operation completes and the task runs to its next \<^verbatim>\<open>await\<close>. A query reads
  the collection and a save writes it when it completes. The \<^verbatim>\<open>_id\<close> of a new document is
  chosen at its insertion, for no two tasks to create the same one; the insertion is
  refused by the unique index when a document for the GitHub id has been stored in the
  meantime.
\<close>

fun resume :: "github \<Rightarrow> int \<Rightarrow> string \<Rightarrow> string \<Rightarrow> task \<Rightarrow> world \<Rightarrow> task \<times> world" where
  "resume gh now owner repo AwaitRepository w =
     (case interceptor (repos_endpoint gh (owner @ ''/'' @ repo)) of
        Inl error \<Rightarrow> (Settled (Inl (syncRepository_catch owner repo error)), w)
      | Inr ghRepo \<Rightarrow> (AwaitFindOne ghRepo, w))"
| "resume gh now owner repo (AwaitFindOne ghRepo) w =
     (case findOne_githubId (gh_id ghRepo) (docs w) of
        Some found \<Rightarrow> (AwaitUpdate (updateFromGitHub now ghRepo found), w)
      | None \<Rightarrow> (AwaitInsert ghRepo, w))"
| "resume gh now owner repo (AwaitInsert ghRepo) w =
     (if list_ex (\<lambda>d. githubId d = gh_id ghRepo) (docs w)
      then (Settled (Inl (syncRepository_catch owner repo duplicateKey)), w)
      else (let savedRepo = updateFromGitHub now ghRepo
                              (new_RepoSnapshot now (newObjectId (docs w)) (gh_id ghRepo))
            in check_readme owner repo savedRepo (save savedRepo w)))"
| "resume gh now owner repo (AwaitUpdate savedRepo) w =
     check_readme owner repo savedRepo (save savedRepo w)"
| "resume gh now owner repo (AwaitReadme savedRepo) w =
     check_languages owner repo
       (case interceptor (readme_endpoint gh (owner @ ''/'' @ repo)) of
          Inr data \<Rightarrow>
            (if data \<noteq> [] then savedRepo\<lparr>readme := Some data, readmeFetchedAt := Some now\<rparr>
             else savedRepo)
        | Inl error \<Rightarrow> savedRepo)
       w"
| "resume gh now owner repo (AwaitLanguages savedRepo) w =
     (AwaitSave
        (case interceptor (languages_endpoint gh (owner @ ''/'' @ repo)) of
           Inr languages' \<Rightarrow> savedRepo\<lparr>languages := syncLanguages languages'\<rparr>
         | Inl error \<Rightarrow> savedRepo),
      w)"
| "resume gh now owner repo (AwaitSave savedRepo) w =
     (case save_validated savedRepo w of
        Inr w' \<Rightarrow> (Settled (Inr savedRepo), w')
      | Inl error \<Rightarrow> (Settled (Inl (syncRepository_catch owner repo error)), w))"
| "resume gh now owner repo (Settled result) w = (Settled result, w)"

text \<open>
  \<^verbatim>\<open>repositories.map(({ owner, repo }) => this.syncRepository(owner, repo))\<close>: every
  synchronisation runs to its first \<^verbatim>\<open>await\<close>, which sends its request for the repository.
\<close>

definition start :: "(string \<times> string) list \<Rightarrow> world \<Rightarrow> task list \<times> world" where
  "start repositories w =
     (map (\<lambda>target. AwaitRepository) repositories,
      w\<lparr>requests := requests w
           @ map (\<lambda>(owner, repo). ReposGet (owner @ ''/'' @ repo)) repositories\<rparr>)"

text \<open>The operation that task \<open>i\<close> awaits completes.\<close>

definition advance ::
  "github \<Rightarrow> int \<Rightarrow> (string \<times> string) list \<Rightarrow> nat \<Rightarrow> task list \<times> world \<Rightarrow> task list \<times> world" where
  "advance gh now repositories i state =
     (let (tasks, w) = state
      in if i < length tasks \<and> i < length repositories
         then (let (owner, repo) = repositories ! i;
                   (t, w') = resume gh now owner repo (tasks ! i) w
               in (tasks[i := t], w'))
         else state)"

text \<open>
  Six completions settle a task. After the completions of the schedule, those that are
  still awaited arrive task by task.
\<close>

definition remaining :: "(string \<times> string) list \<Rightarrow> nat list" where
  "remaining repositories = concat (map (replicate 6) [0..<length repositories])"

fun outcome :: "task \<Rightarrow> RepoSnapshot result" where
  "outcome (Settled result) = result"
| "outcome pending = Inl (internal ''not settled'')"

text \<open>
  \<^verbatim>\<open>Promise.allSettled\<close> over the synchronisations, for a schedule: the list of the tasks
  whose awaited operation completes next. The outcomes are in the order of the targets.
\<close>

definition allSettled_syncRepository ::
  "github \<Rightarrow> int \<Rightarrow> nat list \<Rightarrow> (string \<times> string) list \<Rightarrow> world
     \<Rightarrow> RepoSnapshot result list \<times> world" where
  "allSettled_syncRepository gh now schedule repositories w =
     (let (tasks, w') = fold (advance gh now repositories) (schedule @ remaining repositories)
                          (start repositories w)
      in (map outcome tasks, w'))"


fun rejected_reasons :: "'a result list \<Rightarrow> error list" where
  "rejected_reasons [] = []"
| "rejected_reasons (Inr v # results) = rejected_reasons results"
| "rejected_reasons (Inl e # results) = e # rejected_reasons results"


subsection \<open>The service layer (src/services/RepoService.js)\<close>

record RepoSearchOptions =
  o_language :: "string option"
  o_sort :: "string option"
  o_page :: "int option"
  o_limit :: "int option"

record RepoSummary =
  s_githubId :: int
  s_name :: string
  s_fullName :: string
  s_ownerLogin :: string
  s_ownerAvatar :: "string option"
  s_description :: "string option"
  s_htmlUrl :: string
  s_language :: "string option"
  s_stars :: int
  s_forks :: int
  s_watchers :: int
  s_topics :: "string list"
  s_isPrivate :: bool
  s_updatedAt :: "int option"

record Pagination =
  p_page :: int
  p_limit :: int
  p_totalPages :: number

record RepoSearchResult =
  repos :: "RepoSummary list"
  totalCount :: int
  pagination :: Pagination

definition summarize :: "gh_repo \<Rightarrow> RepoSummary" where
  "summarize repo =
     \<lparr>s_githubId = gh_id repo, s_name = gh_name repo, s_fullName = gh_full_name repo,
      s_ownerLogin = gh_owner_login repo, s_ownerAvatar = gh_owner_avatar_url repo,
      s_description = gh_description repo, s_htmlUrl = gh_html_url repo,
      s_language = gh_language repo, s_stars = gh_stargazers_count repo,
      s_forks = gh_forks_count repo, s_watchers = gh_watchers_count repo,
      s_topics = (case gh_topics repo of None \<Rightarrow> [] | Some ts \<Rightarrow> ts),
      s_isPrivate = gh_private repo, s_updatedAt = gh_updated_at repo\<rparr>"

text \<open>\<^verbatim>\<open>Math.ceil(a / b)\<close> on integers \<open>a\<close> and \<open>b\<close>.\<close>

definition ceil_div :: "int \<Rightarrow> int \<Rightarrow> number" where
  "ceil_div a b = Math_ceil (js_div (double (of_int a)) (double (of_int b)))"

definition searchRepos ::
  "github \<Rightarrow> string option \<Rightarrow> RepoSearchOptions \<Rightarrow> world \<Rightarrow> RepoSearchResult result \<times> world" where
  "searchRepos gh query options w =
     (case or_null query of
        None \<Rightarrow> (Inl (badRequest ''Search query must be at least 2 characters''), w)
      | Some q \<Rightarrow>
          if length (trim q) < 2
          then (Inl (badRequest ''Search query must be at least 2 characters''), w)
          else
            (let sort = default_to ''stars'' (o_sort options);
                 page = default_to 1 (o_page options);
                 limit = default_to 10 (o_limit options)
             in case searchRepositories gh q
                       \<lparr>g_language = o_language options, g_sort = Some sort, g_order = None,
                        g_page = Some page, g_perPage = Some limit\<rparr> w of
                  (Inl error, w') \<Rightarrow> (Inl error, w')
                | (Inr result, w') \<Rightarrow>
                    (Inr \<lparr>repos = map summarize (r_items result),
                          totalCount = r_total_count result,
                          pagination =
                            \<lparr>p_page = page, p_limit = limit,
                             p_totalPages = ceil_div (min (r_total_count result) 1000) limit\<rparr>\<rparr>,
                     w')))"

text \<open>
  \<^verbatim>\<open>syncRepo\<close> mutates the document it is given, also when it throws: the \<open>Inl\<close> carries the
  thrown error together with the document as the caller sees it afterwards.
\<close>

definition syncRepo ::
  "github \<Rightarrow> int \<Rightarrow> RepoSnapshot \<Rightarrow> world \<Rightarrow> ((error \<times> RepoSnapshot) + RepoSnapshot) \<times> world" where
  "syncRepo gh now repo w =
     (case getRepositoryByFullName gh (fullName repo) w of
        (Inr githubData, w1) \<Rightarrow>
          (let repo' = updateFromGitHub now githubData repo
           in (Inr repo', save repo' w1))
      | (Inl error, w1) \<Rightarrow>
          (let repo' = repo\<lparr>syncError := Some (message error)\<rparr>
           in (Inl (error, repo'), save repo' w1)))"

definition getRepoById ::
  "github \<Rightarrow> int \<Rightarrow> nat \<Rightarrow> bool \<Rightarrow> world \<Rightarrow> RepoSnapshot result \<times> world" where
  "getRepoById gh now repoId forceSync w =
     (case findById repoId (docs w) of
        None \<Rightarrow> (Inl (notFound ''Repository not found''), w)
      | Some repo \<Rightarrow>
          if forceSync \<or> needsSync now repo
          then (case syncRepo gh now repo w of
                  (Inr repo', w') \<Rightarrow> (Inr repo', w')
                | (Inl (error, repo'), w') \<Rightarrow> (Inr repo', w'))
          else (Inr repo, w))"

definition getOrCreateFromGitHub ::
  "github \<Rightarrow> int \<Rightarrow> string \<Rightarrow> world \<Rightarrow> RepoSnapshot result \<times> world" where
  "getOrCreateFromGitHub gh now fullName' w =
     (case (case findOne_fullName fullName' (docs w) of
              Some repo \<Rightarrow> if \<not> needsSync now repo then Some repo else None
            | None \<Rightarrow> None) of
        Some repo \<Rightarrow> (Inr repo, w)
      | None \<Rightarrow>
          (case getRepositoryByFullName gh fullName' w of
             (Inl error, w1) \<Rightarrow> (Inl error, w1)
           | (Inr githubData, w1) \<Rightarrow>
               (let (repo, w2) = findOrCreateFromGitHub now (gh_id githubData) githubData w1
                in (Inr repo, w2))))"


definition loadReadme ::
  "github \<Rightarrow> int \<Rightarrow> nat \<Rightarrow> world \<Rightarrow> string option result \<times> world" where
  "loadReadme gh now repoId w =
     (case findById repoId (docs w) of
        None \<Rightarrow> (Inl (notFound ''Repository not found''), w)
      | Some repo \<Rightarrow>
          (let needsRefresh =
                 (case readmeFetchedAt repo of
                    None \<Rightarrow> True
                  | Some t \<Rightarrow> now - t > 7 * 24 * 60 * 60 * 1000)
           in if truthy (readme repo) \<and> \<not> needsRefresh then (Inr (readme repo), w)
              else (case getReadme gh (ownerLogin repo) (name repo) w of
                      (Inr readme', w1) \<Rightarrow>
                        (case or_null readme' of
                           Some text' \<Rightarrow>
                             (let repo' = repo\<lparr>readme := Some (take 50000 text'),
                                              readmeFetchedAt := Some now\<rparr>
                              in case save_validated repo' w1 of
                                   Inr w2 \<Rightarrow> (Inr (readme repo'), w2)
                                 | Inl error \<Rightarrow> (Inr (or_null (readme repo')), w1))
                         | None \<Rightarrow> (Inr (readme repo), w1))
                    | (Inl error, w1) \<Rightarrow> (Inr (or_null (readme repo)), w1))))"

text \<open>
  The language list that \<^verbatim>\<open>loadLanguages\<close> builds from the byte map: percents with one
  decimal place; a map without any bytes divides zero by zero.
\<close>

definition loadedLanguages :: "(string \<times> nat) list \<Rightarrow> LanguageEntry list" where
  "loadedLanguages languagesData =
     (let totalBytes = foldl js_add (Num 0)
                         (map (\<lambda>(name', bytes'). json_number bytes') languagesData)
      in map (\<lambda>(name', bytes').
                \<lparr>lang_name = name', bytes = json_number bytes',
                 percentage =
                   js_div (Math_round (js_mul (js_mul (js_div (json_number bytes') totalBytes)
                                                 (Num 100)) (Num 10)))
                     (Num 10)\<rparr>)
           languagesData)"

text \<open>
  When the \<^verbatim>\<open>save\<close> rejects, the \<^verbatim>\<open>catch\<close> returns the list it has assigned to the document
  in memory and the collection stays as it was.
\<close>

definition loadLanguages ::
  "github \<Rightarrow> nat \<Rightarrow> world \<Rightarrow> LanguageEntry list result \<times> world" where
  "loadLanguages gh repoId w =
     (case findById repoId (docs w) of
        None \<Rightarrow> (Inl (notFound ''Repository not found''), w)
      | Some repo \<Rightarrow>
          if length (languages repo) > 0 then (Inr (languages repo), w)
          else (case getLanguages gh (ownerLogin repo) (name repo) w of
                  (Inr languagesData, w1) \<Rightarrow>
                    (let repo' = repo\<lparr>languages := loadedLanguages languagesData\<rparr>
                     in case save_validated repo' w1 of
                          Inr w2 \<Rightarrow> (Inr (languages repo'), w2)
                        | Inl error \<Rightarrow> (Inr (languages repo'), w1))
                | (Inl error, w1) \<Rightarrow> (Inr (languages repo), w1)))"

subsection \<open>Searching the cache\<close>









subsection \<open>Example data\<close>

text \<open>A GitHub payload, the document cached from it at time 0, and two collections.\<close>

definition widget :: gh_repo where
  "widget =
     \<lparr>gh_id = 42, gh_owner_login = ''acme'', gh_owner_avatar_url = None, gh_name = ''widget'',
      gh_full_name = ''acme/widget'', gh_description = Some ''A widget'',
      gh_html_url = ''https://github.com/acme/widget'', gh_clone_url = None,
      gh_language = Some ''Go'', gh_stargazers_count = 10, gh_forks_count = 2,
      gh_watchers_count = 10, gh_open_issues_count = 1, gh_private = False, gh_fork = False,
      gh_default_branch = ''main'', gh_topics = None, gh_license_spdx_id = Some ''MIT'',
      gh_created_at = None, gh_updated_at = None, gh_pushed_at = None\<rparr>"

definition stored_widget :: RepoSnapshot where
  "stored_widget = updateFromGitHub 0 widget (new_RepoSnapshot 0 1 42)"

definition widget_world :: world where
  "widget_world = \<lparr>docs = [stored_widget], requests = []\<rparr>"

definition empty_world :: world where
  "empty_world = \<lparr>docs = [], requests = []\<rparr>"

definition gadget :: gh_repo where
  "gadget = widget\<lparr>gh_id := 43, gh_name := ''gadget'', gh_full_name := ''acme/gadget''\<rparr>"

text \<open>
  A GitHub that knows \<^verbatim>\<open>acme/widget\<close> (42) and \<^verbatim>\<open>acme/gadget\<close> (43), has no README and
  an empty language map for either, and answers every other repository path with the
  given response.
\<close>

definition github_acme :: "gh_repo response \<Rightarrow> github" where
  "github_acme other =
     \<lparr>repos_endpoint = (\<lambda>path. if path = ''acme/widget'' then Success widget
                               else if path = ''acme/gadget'' then Success gadget
                               else other),
      repositories_endpoint = (\<lambda>i. if i = 42 then Success widget
                                    else if i = 43 then Success gadget
                                    else ErrorStatus 404 None),
      readme_endpoint = (\<lambda>path. ErrorStatus 404 None),
      languages_endpoint = (\<lambda>path. Success []),
      search_endpoint = (\<lambda>q sort order page per_page.
                           Success \<lparr>items = [widget, gadget], total_count = 2\<rparr>)\<rparr>"


text \<open>A GitHub that cannot be reached.\<close>

definition github_down :: github where
  "github_down =
     \<lparr>repos_endpoint = (\<lambda>path. NoResponse),
      repositories_endpoint = (\<lambda>i. NoResponse),
      readme_endpoint = (\<lambda>path. NoResponse),
      languages_endpoint = (\<lambda>path. NoResponse),
      search_endpoint = (\<lambda>q sort order page per_page. NoResponse)\<rparr>"

text \<open>The GitHub above with a language map for every repository.\<close>

definition github_polyglot :: github where
  "github_polyglot =
     (github_acme NoResponse)\<lparr>languages_endpoint := (\<lambda>path. Success [(''Go'', 300), (''JS'', 100)])\<rparr>"



text \<open>A GitHub of which only the languages endpoint answers, with the given byte map.\<close>

definition github_languages :: "(string \<times> nat) list \<Rightarrow> github" where
  "github_languages languagesData =
     github_down\<lparr>languages_endpoint := (\<lambda>path. Success languagesData)\<rparr>"



subsection \<open>What holds of the interleaved synchronisations\<close>



text \<open>An error without \<^verbatim>\<open>statusCode\<close>.\<close>

fun unnumbered :: "error \<Rightarrow> bool" where
  "unnumbered (OtherError m) = True"
| "unnumbered (ApiError s m operational) = False"



text \<open>The number of completions a task still awaits, at most.\<close>

fun pending :: "task \<Rightarrow> nat" where
  "pending AwaitRepository = 6"
| "pending (AwaitFindOne g) = 5"
| "pending (AwaitInsert g) = 4"
| "pending (AwaitUpdate d) = 4"
| "pending (AwaitReadme d) = 3"
| "pending (AwaitLanguages d) = 2"
| "pending (AwaitSave d) = 1"
| "pending (Settled result) = 0"




section \<open>Properties\<close>

subsection \<open>Rounding to a double\<close>

lemma pow2_nat: "0 \<le> k \<Longrightarrow> (2::rat) ^ nat k = 2 powi k"
  by (simp add: power_int_nonneg_exp)

lemma pow2_le_pos: "(2::rat) powi e \<le> x \<Longrightarrow> 0 < x"
  using zero_less_power_int [of "2::rat" e] by linarith

lemma exponent_raw:
  assumes "0 < a" and "quotient_of a = (p, q)"
  shows "2 powi (bitlen p - bitlen q - 1) < a \<and> a < 2 powi (bitlen p - bitlen q + 1)"
proof -
  have q: "0 < q" using assms(2) quotient_of_denom_pos by blast
  have a: "a = of_int p / of_int q" using assms(2) quotient_of_div by blast
  have p: "0 < p" using assms(1) q a by (simp add: zero_less_divide_iff)
  have bp: "1 \<le> bitlen p" "1 \<le> bitlen q"
    using p q bitlen_eq_zero_iff [of p] bitlen_eq_zero_iff [of q] bitlen_nonneg [of p] bitlen_nonneg [of q]
    by linarith+
  have "2 ^ nat (bitlen p - 1) \<le> p" "p < 2 ^ nat (bitlen p)"
    "2 ^ nat (bitlen q - 1) \<le> q" "q < 2 ^ nat (bitlen q)"
    using bitlen_bounds [OF p] bitlen_bounds [OF q] by simp_all
  then have "(2::rat) ^ nat (bitlen p - 1) \<le> of_int p" "of_int p < (2::rat) ^ nat (bitlen p)"
    "(2::rat) ^ nat (bitlen q - 1) \<le> of_int q" "of_int q < (2::rat) ^ nat (bitlen q)"
    by (metis of_int_le_iff of_int_less_iff of_int_numeral of_int_power)+
  then have b: "2 powi (bitlen p - 1) \<le> (of_int p :: rat)" "(of_int p :: rat) < 2 powi (bitlen p)"
    "2 powi (bitlen q - 1) \<le> (of_int q :: rat)" "(of_int q :: rat) < 2 powi (bitlen q)"
    using bp bitlen_nonneg [of p] bitlen_nonneg [of q] by (simp_all add: pow2_nat)
  have qr: "0 < (of_int q :: rat)" using q by simp
  have "2 powi (bitlen p - bitlen q - 1) * of_int q < (2::rat) powi (bitlen p - bitlen q - 1) * 2 powi (bitlen q)"
    using b(4) by (simp add: mult_strict_left_mono)
  also have "\<dots> = 2 powi (bitlen p - 1)"
    by (simp add: power_int_add [symmetric])
  also have "\<dots> \<le> of_int p" by (rule b(1))
  finally have lo: "2 powi (bitlen p - bitlen q - 1) < a"
    using qr by (simp add: a pos_less_divide_eq)
  have "of_int p < (2::rat) powi (bitlen p)" by (rule b(2))
  also have "\<dots> = 2 powi (bitlen p - bitlen q + 1) * 2 powi (bitlen q - 1)"
    by (simp add: power_int_add [symmetric])
  also have "\<dots> \<le> 2 powi (bitlen p - bitlen q + 1) * of_int q"
    using b(3) by (simp add: mult_left_mono)
  finally have hi: "a < 2 powi (bitlen p - bitlen q + 1)"
    using qr by (simp add: a pos_divide_less_eq)
  show ?thesis using lo hi by simp
qed

lemma exponent_bounds:
  assumes "0 < a"
  shows "2 powi exponent a \<le> a \<and> a < 2 powi (exponent a + 1)"
proof -
  obtain p q where pq: "quotient_of a = (p, q)" by (cases "quotient_of a")
  note r = exponent_raw [OF assms pq]
  show ?thesis
  proof (cases "2 powi (bitlen p - bitlen q) \<le> a")
    case True
    then show ?thesis using r by (simp add: exponent_def pq)
  next
    case False
    then show ?thesis using r by (simp add: exponent_def pq)
  qed
qed

lemma pow2_less_D: "(2::rat) powi m < 2 powi n \<Longrightarrow> m < n"
  using power_int_increasing [of n m "2::rat"] by (cases "m < n") auto

lemma exponent_unique:
  assumes "2 powi e \<le> a" and "a < 2 powi (e + 1)"
  shows "exponent a = e"
proof -
  have pos: "0 < a" using assms(1) by (rule pow2_le_pos)
  note b = exponent_bounds [OF pos]
  have "(2::rat) powi e < 2 powi (exponent a + 1)" using assms(1) b by linarith
  then have 1: "e < exponent a + 1" by (rule pow2_less_D)
  have "(2::rat) powi exponent a < 2 powi (e + 1)" using assms(2) b by linarith
  then have 2: "exponent a < e + 1" by (rule pow2_less_D)
  show ?thesis using 1 2 by simp
qed

lemma round_even_error: "\<bar>of_int (round_even y) - y\<bar> \<le> 1 / 2"
proof -
  have f: "of_int \<lfloor>y\<rfloor> \<le> y" "y < of_int \<lfloor>y\<rfloor> + 1"
    by linarith+
  show ?thesis
    unfolding round_even_def Let_def using f by (simp add: abs_le_iff)
qed

lemma round_even_int: "round_even (of_int m) = m"
  by (simp add: round_even_def)

lemma double_not_NaN: "double x \<noteq> NaN" "NaN \<noteq> double x"
  by (simp_all add: double_def Let_def)

text \<open>
  A number in the normal range is rounded to a multiple of the spacing of its binade, at
  most half a spacing away.
\<close>

lemma double_normal:
  assumes "2 powi e \<le> x" and "x < 2 powi (e + 1)" and "- 1022 \<le> e" and "e \<le> 1022"
  shows "double x = Num (of_int (round_even (x / 2 powi (e - 52))) * 2 powi (e - 52))"
    and "\<bar>of_int (round_even (x / 2 powi (e - 52))) * 2 powi (e - 52) - x\<bar> \<le> 2 powi (e - 53)"
proof -
  let ?ulp = "(2::rat) powi (e - 52)"
  let ?m = "round_even (x / ?ulp)"
  have pos: "0 < x" using assms(1) by (rule pow2_le_pos)
  have ex: "exponent x = e" using assms(1,2) by (rule exponent_unique)
  have ulp: "0 < ?ulp" by simp
  have "\<bar>of_int ?m - x / ?ulp\<bar> \<le> 1 / 2" by (rule round_even_error)
  then have "\<bar>of_int ?m - x / ?ulp\<bar> * ?ulp \<le> 1 / 2 * ?ulp"
    using ulp by (simp add: mult_right_mono)
  moreover have "(of_int ?m - x / ?ulp) * ?ulp = of_int ?m * ?ulp - x"
    by (simp add: left_diff_distrib)
  then have "\<bar>of_int ?m - x / ?ulp\<bar> * ?ulp = \<bar>of_int ?m * ?ulp - x\<bar>"
    using ulp by (metis abs_mult abs_of_pos)
  moreover have "1 / 2 * ?ulp = 2 powi (e - 53)"
    using power_int_add [of "2::rat" "e - 53" 1] by simp
  ultimately show err: "\<bar>of_int ?m * ?ulp - x\<bar> \<le> 2 powi (e - 53)" by simp
  have "(2::rat) powi (e - 53) \<le> 2 powi (e + 1)"
    by (rule power_int_increasing) simp_all
  then have "of_int ?m * ?ulp < 2 * 2 powi (e + 1)"
    using err assms(2) by (simp add: abs_le_iff)
  also have "\<dots> = 2 powi (e + 2)"
    using power_int_add [of "2::rat" "e + 1" 1] by (simp add: mult.commute add.commute)
  also have "\<dots> \<le> 2 powi 1024"
    by (rule power_int_increasing) (use assms(4) in simp_all)
  finally have "\<not> overflow_threshold \<le> of_int ?m * ?ulp"
    by (simp add: overflow_threshold_def)
  moreover have "\<bar>x\<bar> = x" "sgn x = 1" "(x = 0) = False" "(0 < x) = True"
    using pos by simp_all
  moreover have "max e (- 1022) = e"
    using assms(3) by simp
  ultimately show "double x = Num (of_int ?m * ?ulp)"
    by (simp only: double_def Let_def ex if_False mult_1)
qed

text \<open>A multiple of the spacing of its binade is a double.\<close>

lemma double_exact:
  assumes "2 powi e \<le> x" and "x < 2 powi (e + 1)" and "- 1022 \<le> e" and "e \<le> 1022"
    and "x = of_int m * 2 powi (e - 52)"
  shows "double x = Num x"
proof -
  have "x / 2 powi (e - 52) = of_int m"
    by (simp add: assms(5))
  then have "round_even (x / 2 powi (e - 52)) = m"
    by (simp only: round_even_int)
  then show ?thesis
    using double_normal(1) [OF assms(1-4)] assms(5) by simp
qed

text \<open>The integers below \<open>2\<^sup>5\<^sup>3\<close> are doubles.\<close>

lemma double_of_nat:
  assumes "n < 2 ^ 53"
  shows "double (of_nat n) = Num (of_nat n)"
proof (cases "n = 0")
  case True
  then show ?thesis by (simp add: double_def)
next
  case False
  let ?x = "of_nat n :: rat"
  let ?e = "exponent ?x"
  have pos: "0 < ?x" using False by simp
  note b = exponent_bounds [OF pos]
  have "?x < 2 powi 53" using assms by (metis of_nat_less_iff of_nat_numeral of_nat_power power_int_numeral)
  then have "(2::rat) powi ?e < 2 powi 53" using b by linarith
  then have hi: "?e < 53" by (rule pow2_less_D)
  have "1 \<le> ?x" using False by (simp add: Suc_leI)
  then have "(2::rat) powi 0 < 2 powi (?e + 1)" using b by simp
  then have lo: "0 \<le> ?e" using pow2_less_D [of 0 "?e + 1"] by simp
  have u: "(2::rat) powi (?e - 52) = 1 / 2 ^ nat (52 - ?e)"
    using hi power_int_minus_divide [of "2::rat" "52 - ?e"] by (simp add: power_int_nonneg_exp)
  have "?x = of_int (int n * 2 ^ nat (52 - ?e)) * 2 powi (?e - 52)"
    by (simp add: u)
  then show ?thesis
    using double_exact [of ?e ?x "int n * 2 ^ nat (52 - ?e)"] b lo hi by simp
qed

lemma json_number_exact: "n < 2 ^ 53 \<Longrightarrow> json_number n = Num (of_nat n)"
  by (simp add: json_number_def double_of_nat)

text \<open>The relative error of a rounding is at most \<open>2\<^sup>-\<^sup>5\<^sup>3\<close>.\<close>

lemma double_close:
  assumes "2 powi (- 60) \<le> x" and "x \<le> 2048"
  shows "\<exists>v. double x = Num v \<and> \<bar>v - x\<bar> \<le> x / 2 ^ 53"
proof -
  have pos: "0 < x" using assms(1) by (rule pow2_le_pos)
  let ?e = "exponent x"
  note b = exponent_bounds [OF pos]
  have "(2::rat) powi (- 1022) \<le> 2 powi (- 60)"
    by (rule power_int_increasing) simp_all
  then have "(2::rat) powi (- 1022) < 2 powi (?e + 1)" using assms(1) b by linarith
  then have lo: "- 1022 \<le> ?e" using pow2_less_D [of "- 1022" "?e + 1"] by simp
  have "x < 2 powi 12" using assms(2) by simp
  then have "(2::rat) powi ?e < 2 powi 12" using b by linarith
  then have hi: "?e < 12" by (rule pow2_less_D)
  have "(2::rat) powi (?e - 53) = 2 powi ?e / 2 ^ 53"
    using power_int_diff [of "2::rat" ?e 53] by simp
  also have "\<dots> \<le> x / 2 ^ 53"
    using b by (simp add: divide_right_mono)
  finally show ?thesis
    using double_normal [of ?e x] b lo hi by force
qed

lemma double_step:
  assumes "u = 1 / 2 ^ 53" and "lo \<le> x" and "x \<le> hi" and "2 powi (- 60) \<le> lo" and "hi \<le> 2048"
  shows "\<exists>v. double x = Num v \<and> \<bar>v - x\<bar> \<le> hi * u \<and> lo / 2 \<le> v"
proof -
  have pos: "0 < x"
    using assms(2,4) pow2_le_pos [of "- 60" lo] by linarith
  obtain v where v: "double x = Num v" "\<bar>v - x\<bar> \<le> x / 2 ^ 53"
    using double_close [of x] assms by (meson order_trans)
  have "x / 2 ^ 53 \<le> hi / 2 ^ 53"
    using assms(3) by (simp add: divide_right_mono)
  then have a: "\<bar>v - x\<bar> \<le> hi * u"
    using v(2) by (simp add: assms(1))
  have "x / 2 ^ 53 \<le> x / 2"
    using pos by (simp add: divide_left_mono)
  then have "x / 2 \<le> v"
    using v(2) by linarith
  then have "lo / 2 \<le> v"
    using assms(2) by simp
  then show ?thesis using v(1) a by blast
qed

text \<open>A sum of byte counts below \<open>2\<^sup>5\<^sup>3\<close> is exact.\<close>

lemma js_sum_exact:
  "acc + sum_list (map snd ls) < 2 ^ 53 \<Longrightarrow>
   foldl js_add (Num (of_nat acc)) (map (\<lambda>(name', bytes'). json_number bytes') ls)
     = Num (of_nat (acc + sum_list (map snd ls)))"
proof (induction ls arbitrary: acc)
  case Nil
  then show ?case by simp
next
  case (Cons l ls)
  obtain n b where l: "l = (n, b)" by (cases l)
  have b: "b < 2 ^ 53" and ab: "acc + b < 2 ^ 53" using Cons.prems by (simp_all add: l)
  have "js_add (Num (of_nat acc)) (json_number b) = Num (of_nat (acc + b))"
    using double_of_nat [OF b] double_of_nat [OF ab] by (simp add: json_number_def)
  then show ?case
    using Cons.IH [of "acc + b"] Cons.prems by (simp add: add.assoc l)
qed

lemma totalBytes_exact:
  "sum_list (map snd ls) < 2 ^ 53 \<Longrightarrow>
   foldl js_add (Num 0) (map (\<lambda>(name', bytes'). json_number bytes') ls)
     = Num (of_nat (sum_list (map snd ls)))"
  using js_sum_exact [of 0 ls] by simp

text \<open>
  The share of \<open>b\<close> bytes in a total of \<open>t\<close>, times 100 and times 10, as the code computes
  them: the quotient and the two products are each rounded.
\<close>

lemma share_steps:
  assumes "0 < b" and "b \<le> t" and "t < 2 ^ 53"
  shows "\<exists>q m1 m2.
     js_div (Num (of_nat b)) (Num (of_nat t)) = Num q
     \<and> js_mul (Num q) (Num 100) = Num m1
     \<and> js_mul (Num m1) (Num 10) = Num m2
     \<and> \<bar>m1 - 100 * (of_nat b / of_nat t)\<bar> \<le> 300 / 2 ^ 53
     \<and> \<bar>m2 - 1000 * (of_nat b / of_nat t)\<bar> \<le> 4010 / 2 ^ 53"
proof -
  define u :: rat where "u = 1 / 2 ^ 53"
  define x :: rat where "x = of_nat b / of_nat t"
  define l :: rat where "l = 2 powi (- 60)"
  have ul: "0 < u" "4 * l \<le> u" "0 < l" "u \<le> 1 / 1000000"
    by (simp_all add: u_def l_def)
  have t: "0 < (of_nat t :: rat)" "(of_nat t :: rat) < 2 ^ 53" "(of_nat b :: rat) \<le> of_nat t"
    "1 \<le> (of_nat b :: rat)"
    using assms by (simp_all add: Suc_leI)
  have x1: "x \<le> 1" using t by (simp add: x_def divide_le_eq)
  have "1 / (of_nat t :: rat) \<le> x" using t by (simp add: x_def divide_right_mono)
  moreover have "1 / 2 ^ 53 < 1 / (of_nat t :: rat)" using t by (simp add: divide_strict_left_mono)
  ultimately have x0: "u \<le> x" by (simp add: u_def)
  obtain q where q: "double x = Num q" "\<bar>q - x\<bar> \<le> 1 * u" "u / 2 \<le> q"
    using double_step [OF u_def x0 x1] ul by (auto simp: l_def)
  have qh: "q \<le> 2" using q(2) x1 ul by linarith
  have "50 * u \<le> q * 100" using q(3) by simp
  moreover have "q * 100 \<le> 200" using qh by simp
  ultimately obtain m1 where m1: "double (q * 100) = Num m1" "\<bar>m1 - q * 100\<bar> \<le> 200 * u"
      "50 * u / 2 \<le> m1"
    using double_step [OF u_def, of "50 * u" "q * 100" 200] ul by (auto simp: l_def)
  have m1b: "\<bar>m1 - 100 * x\<bar> \<le> 300 * u" using m1(2) q(2) by linarith
  have m1h: "m1 \<le> 101" using m1b x1 ul by linarith
  have "250 * u \<le> m1 * 10" using m1(3) by simp
  moreover have "m1 * 10 \<le> 1010" using m1h by simp
  ultimately obtain m2 where m2: "double (m1 * 10) = Num m2" "\<bar>m2 - m1 * 10\<bar> \<le> 1010 * u"
    using double_step [OF u_def, of "250 * u" "m1 * 10" 1010] ul by (auto simp: l_def)
  have m2b: "\<bar>m2 - 1000 * x\<bar> \<le> 4010 * u" using m2(2) m1b by linarith
  have nz: "(of_nat t :: rat) \<noteq> 0" using t by simp
  have "js_div (Num (of_nat b)) (Num (of_nat t)) = Num q"
    using q(1) nz by (simp add: x_def)
  moreover have "js_mul (Num q) (Num 100) = Num m1" "js_mul (Num m1) (Num 10) = Num m2"
    using m1(1) m2(1) by simp_all
  moreover have "\<bar>m1 - 100 * (of_nat b / of_nat t)\<bar> \<le> 300 / 2 ^ 53"
    "\<bar>m2 - 1000 * (of_nat b / of_nat t)\<bar> \<le> 4010 / 2 ^ 53"
    using m1b m2b by (simp_all add: x_def u_def)
  ultimately show ?thesis by blast
qed

lemma double_zero: "double 0 = Num 0"
  by (simp add: double_def)

lemma floor_half: "\<lfloor>1 / 2 :: rat\<rfloor> = 0"
  by (rule floor_unique) simp_all

text \<open>The whole percent of \<^verbatim>\<open>syncRepository\<close> and the percent with one decimal place of \<^verbatim>\<open>loadLanguages\<close>.\<close>

lemma whole_percent:
  assumes "b \<le> t" and "0 < t" and "t < 2 ^ 53"
  shows "\<exists>k::int. Math_round (js_mul (js_div (Num (of_nat b)) (Num (of_nat t))) (Num 100)) = Num (of_int k)
     \<and> 0 \<le> k \<and> k \<le> 100
     \<and> \<bar>of_int k - 100 * (rat_of_nat b / rat_of_nat t)\<bar> \<le> 1 / 2 + 300 / 2 ^ 53"
proof (cases "b = 0")
  case True
  have "Math_round (js_mul (js_div (Num (of_nat b)) (Num (of_nat t))) (Num 100)) = Num (of_int 0)"
    using True assms(2) by (simp add: double_zero floor_half)
  then show ?thesis using True by (intro exI [of _ 0]) simp
next
  case False
  then obtain q m1 m2 where s: "js_div (Num (of_nat b)) (Num (of_nat t)) = Num q"
      "js_mul (Num q) (Num 100) = Num m1"
      "\<bar>m1 - 100 * (of_nat b / of_nat t)\<bar> \<le> 300 / 2 ^ 53"
    using share_steps [of b t] assms by auto
  define x :: rat where "x = of_nat b / of_nat t"
  define k where "k = \<lfloor>m1 + 1 / 2\<rfloor>"
  have x: "0 \<le> x" "x \<le> 1" using assms by (simp_all add: x_def divide_le_eq)
  have f: "of_int k \<le> m1 + 1 / 2" "m1 + 1 / 2 < of_int k + 1"
    unfolding k_def by linarith+
  define err :: rat where "err = 300 / 2 ^ 53"
  have err: "err \<le> 1 / 4" by (simp add: err_def)
  have m: "\<bar>m1 - 100 * x\<bar> \<le> err" using s(3) by (simp add: x_def err_def)
  have "- 1 < rat_of_int k" "rat_of_int k < 101" using f m x err by linarith+
  then have kb: "0 \<le> k" "k \<le> 100" by linarith+
  have "\<bar>of_int k - 100 * x\<bar> \<le> 1 / 2 + err" using f m by linarith
  then have "\<bar>of_int k - 100 * x\<bar> \<le> 1 / 2 + 300 / 2 ^ 53" by (simp only: err_def)
  moreover have "Math_round (js_mul (js_div (Num (of_nat b)) (Num (of_nat t))) (Num 100)) = Num (of_int k)"
    unfolding s k_def by simp
  ultimately show ?thesis using kb unfolding x_def by blast
qed

lemma tenth_percent:
  assumes "b \<le> t" and "0 < t" and "t < 2 ^ 53"
  shows "\<exists>k::int. js_div (Math_round (js_mul (js_mul (js_div (Num (of_nat b)) (Num (of_nat t)))
                                                 (Num 100)) (Num 10))) (Num 10)
                 = double (of_int k / 10)
     \<and> 0 \<le> k \<and> k \<le> 1000
     \<and> \<bar>of_int k / 10 - 100 * (rat_of_nat b / rat_of_nat t)\<bar> \<le> 1 / 20 + 401 / 2 ^ 53"
proof (cases "b = 0")
  case True
  have "js_div (Math_round (js_mul (js_mul (js_div (Num (of_nat b)) (Num (of_nat t)))
                                                 (Num 100)) (Num 10))) (Num 10)
        = double (of_int 0 / 10)"
    using True assms(2) by (simp add: double_zero floor_half)
  then show ?thesis using True by (intro exI [of _ 0]) simp
next
  case False
  then obtain q m1 m2 where s: "js_div (Num (of_nat b)) (Num (of_nat t)) = Num q"
      "js_mul (Num q) (Num 100) = Num m1" "js_mul (Num m1) (Num 10) = Num m2"
      "\<bar>m2 - 1000 * (of_nat b / of_nat t)\<bar> \<le> 4010 / 2 ^ 53"
    using share_steps [of b t] assms by auto
  define x :: rat where "x = of_nat b / of_nat t"
  define k where "k = \<lfloor>m2 + 1 / 2\<rfloor>"
  have x: "0 \<le> x" "x \<le> 1" using assms by (simp_all add: x_def divide_le_eq)
  have f: "of_int k \<le> m2 + 1 / 2" "m2 + 1 / 2 < of_int k + 1"
    unfolding k_def by linarith+
  define err :: rat where "err = 401 / 2 ^ 53"
  have err: "err \<le> 1 / 40" by (simp add: err_def)
  have m: "\<bar>m2 - 1000 * x\<bar> \<le> 10 * err" using s(4) by (simp add: x_def err_def)
  have "- 1 < rat_of_int k" "rat_of_int k < 1001" using f m x err by linarith+
  then have kb: "0 \<le> k" "k \<le> 1000" by linarith+
  have "\<bar>of_int k / 10 - 100 * x\<bar> \<le> 1 / 20 + err" using f m by linarith
  then have "\<bar>of_int k / 10 - 100 * x\<bar> \<le> 1 / 20 + 401 / 2 ^ 53" by (simp only: err_def)
  moreover have "js_div (Math_round (js_mul (js_mul (js_div (Num (of_nat b)) (Num (of_nat t)))
                                                 (Num 100)) (Num 10))) (Num 10)
                 = double (of_int k / 10)"
    unfolding s k_def by simp
  ultimately show ?thesis using kb unfolding x_def by blast
qed


subsection \<open>The collection: lookups and saves\<close>

lemma find_map_replace:
  "find P ds = Some r \<Longrightarrow> P r' \<Longrightarrow>
   find P (map (\<lambda>d. if oid d = oid r then r' else d) ds) = Some r'"
  by (induction ds) (auto split: if_splits)

lemma find_Some_holds: "find P ds = Some r \<Longrightarrow> P r \<and> r \<in> set ds"
  by (induction ds) (auto split: if_splits)

lemma find_append_None: "find P xs = None \<Longrightarrow> find P (xs @ ys) = find P ys"
  by (induction xs) (auto split: if_splits)

lemma find_None_all: "find P ds = None \<Longrightarrow> \<forall>d \<in> set ds. \<not> P d"
  by (induction ds) (auto split: if_splits)

lemma fold_max_ge: "(a::nat) \<le> fold max xs a \<and> (\<forall>x \<in> set xs. x \<le> fold max xs a)"
proof (induction xs arbitrary: a)
  case Nil
  show ?case by simp
next
  case (Cons x xs)
  have "max x a \<le> fold max xs (max x a)" and "\<forall>y \<in> set xs. y \<le> fold max xs (max x a)"
    using Cons.IH [of "max x a"] by simp_all
  then show ?case by auto
qed

lemma newObjectId_fresh: "d \<in> set ds \<Longrightarrow> oid d \<noteq> newObjectId ds"
  using fold_max_ge [of 0 "map oid ds"] by (fastforce simp: newObjectId_def)

lemma newObjectId_not_stored: "\<not> list_ex (\<lambda>d. oid d = newObjectId ds) ds"
  using newObjectId_fresh by (auto simp: list_ex_iff)

lemma save_doc_stored: "find P ds = Some r \<Longrightarrow> oid r' = oid r \<Longrightarrow>
   save_doc r' ds = map (\<lambda>d. if oid d = oid r then r' else d) ds"
  by (auto simp: save_doc_def list_ex_iff dest: find_Some_holds)

lemma save_doc_new: "save_doc (updateFromGitHub now g (new_RepoSnapshot t (newObjectId ds) gid)) ds
   = ds @ [updateFromGitHub now g (new_RepoSnapshot t (newObjectId ds) gid)]"
  using newObjectId_not_stored [of ds]
  by (simp add: save_doc_def updateFromGitHub_def new_RepoSnapshot_def)

lemma update_twice: "updateFromGitHub t2 g (updateFromGitHub t1 g r) = updateFromGitHub t2 g r"
  by (simp add: updateFromGitHub_def)

lemma update_new: "updateFromGitHub t2 g (new_RepoSnapshot t1 i gid) = updateFromGitHub t2 g (new_RepoSnapshot t2 i gid)"
  by (simp add: updateFromGitHub_def new_RepoSnapshot_def)

lemma update_keeps: "oid (updateFromGitHub t g r) = oid r" "githubId (updateFromGitHub t g r) = githubId r"
  by (simp_all add: updateFromGitHub_def)

lemma upsert_existing:
  assumes "findOne_githubId gid (docs w) = Some r"
  shows "findOrCreateFromGitHub now gid g w =
     (updateFromGitHub now g r, w\<lparr>docs := map (\<lambda>d. if oid d = oid r then updateFromGitHub now g r else d) (docs w)\<rparr>)"
  using assms save_doc_stored [of "\<lambda>d. githubId d = gid" "docs w" r "updateFromGitHub now g r"]
  by (simp add: findOrCreateFromGitHub_def save_def findOne_githubId_def update_keeps Let_def)

lemma upsert_missing:
  assumes "findOne_githubId gid (docs w) = None"
  shows "findOrCreateFromGitHub now gid g w =
     (updateFromGitHub now g (new_RepoSnapshot now (newObjectId (docs w)) gid),
      w\<lparr>docs := docs w @ [updateFromGitHub now g (new_RepoSnapshot now (newObjectId (docs w)) gid)]\<rparr>)"
  using assms by (simp add: findOrCreateFromGitHub_def save_def save_doc_new Let_def)

lemma upsert_twice_eq:
  "findOrCreateFromGitHub t2 gid g (snd (findOrCreateFromGitHub t1 gid g w)) = findOrCreateFromGitHub t2 gid g w"
proof (cases "findOne_githubId gid (docs w)")
  case None
  let ?n = "newObjectId (docs w)"
  let ?r1 = "updateFromGitHub t1 g (new_RepoSnapshot t1 ?n gid)"
  let ?w1 = "w\<lparr>docs := docs w @ [?r1]\<rparr>"
  have none: "find (\<lambda>d. githubId d = gid) (docs w) = None"
    using None by (simp add: findOne_githubId_def)
  have "findOne_githubId gid (docs ?w1) = Some ?r1"
    using none by (simp add: findOne_githubId_def find_append_None update_keeps new_RepoSnapshot_def)
  then have "findOrCreateFromGitHub t2 gid g ?w1 =
     (updateFromGitHub t2 g ?r1, ?w1\<lparr>docs := map (\<lambda>d. if oid d = oid ?r1 then updateFromGitHub t2 g ?r1 else d) (docs ?w1)\<rparr>)"
    by (rule upsert_existing)
  moreover have "map (\<lambda>d. if oid d = oid ?r1 then updateFromGitHub t2 g ?r1 else d) (docs w) = docs w"
    using newObjectId_fresh [of _ "docs w"]
    by (intro map_idI) (auto simp: update_keeps new_RepoSnapshot_def)
  ultimately show ?thesis
    using None by (simp add: upsert_missing update_twice update_new [of t2 g t1])
next
  case (Some r)
  let ?r1 = "updateFromGitHub t1 g r"
  let ?w1 = "w\<lparr>docs := map (\<lambda>d. if oid d = oid r then ?r1 else d) (docs w)\<rparr>"
  have "githubId r = gid"
    using Some find_Some_holds [of "\<lambda>d. githubId d = gid" "docs w" r] by (simp add: findOne_githubId_def)
  then have "findOne_githubId gid (docs ?w1) = Some ?r1"
    using Some find_map_replace [of "\<lambda>d. githubId d = gid" "docs w" r ?r1]
    by (simp add: findOne_githubId_def update_keeps)
  then have "findOrCreateFromGitHub t2 gid g ?w1 =
     (updateFromGitHub t2 g ?r1, ?w1\<lparr>docs := map (\<lambda>d. if oid d = oid ?r1 then updateFromGitHub t2 g ?r1 else d) (docs ?w1)\<rparr>)"
    by (rule upsert_existing)
  then show ?thesis
    using Some by (simp add: upsert_existing update_twice update_keeps o_def cong: if_cong)
qed


lemma length_filter_map_same:
  "\<forall>d \<in> set ds. P (f d) = P d \<Longrightarrow> length (filter P (map f ds)) = length (filter P ds)"
  by (induction ds) auto

lemma upsert_count:
  assumes "distinct (map oid (docs w))"
    and "length (filter (\<lambda>d. githubId d = gid) (docs w)) \<le> 1"
  shows "length (filter (\<lambda>d. githubId d = gid) (docs (snd (findOrCreateFromGitHub now gid g w)))) = 1"
proof (cases "findOne_githubId gid (docs w)")
  case None
  then have "filter (\<lambda>d. githubId d = gid) (docs w) = []"
    using find_None_all [of "\<lambda>d. githubId d = gid" "docs w"]
    by (simp add: findOne_githubId_def filter_empty_conv)
  then show ?thesis
    using None by (simp add: upsert_missing update_keeps new_RepoSnapshot_def)
next
  case (Some r)
  let ?r' = "updateFromGitHub now g r"
  let ?f = "\<lambda>d. if oid d = oid r then ?r' else d"
  have r: "githubId r = gid" "r \<in> set (docs w)"
    using Some find_Some_holds [of "\<lambda>d. githubId d = gid" "docs w" r]
    by (simp_all add: findOne_githubId_def)
  have "\<forall>d \<in> set (docs w). (githubId (?f d) = gid) = (githubId d = gid)"
  proof
    fix d assume d: "d \<in> set (docs w)"
    show "(githubId (?f d) = gid) = (githubId d = gid)"
    proof (cases "oid d = oid r")
      case True
      then have "d = r"
        using assms(1) d r(2) by (meson distinct_map inj_onD)
      then show ?thesis using r(1) by (simp add: update_keeps)
    next
      case False
      then show ?thesis by simp
    qed
  qed
  then have "length (filter (\<lambda>d. githubId d = gid) (map ?f (docs w)))
             = length (filter (\<lambda>d. githubId d = gid) (docs w))"
    by (rule length_filter_map_same)
  moreover have "length (filter (\<lambda>d. githubId d = gid) (docs w)) \<ge> 1"
    using r by (metis (mono_tags, lifting) One_nat_def Suc_leI filter_empty_conv length_greater_0_conv)
  ultimately show ?thesis
    using Some assms(2) by (simp add: upsert_existing)
qed

subsection \<open>Upsert by GitHub id\<close>

text \<open>
  C6 as stated fails: each call of \<^verbatim>\<open>findOrCreateFromGitHub\<close> stamps the document with its
  own time, so between two calls with the same payload the field \<open>lastSyncedAt\<close> moves.
  Here the first call is made at time 1000 and the second at time 2000.
\<close>

theorem upsert_lastSyncedAt_counterexample:
  "lastSyncedAt (fst (findOrCreateFromGitHub 1000 42 widget empty_world)) = Some 1000
   \<and> lastSyncedAt (fst (findOrCreateFromGitHub 2000 42 widget
        (snd (findOrCreateFromGitHub 1000 42 widget empty_world)))) = Some 2000
   \<and> fst (findOrCreateFromGitHub 2000 42 widget
        (snd (findOrCreateFromGitHub 1000 42 widget empty_world)))
      \<noteq> fst (findOrCreateFromGitHub 1000 42 widget empty_world)"
  by (simp add: upsert_missing upsert_existing empty_world_def findOne_githubId_def
      updateFromGitHub_def new_RepoSnapshot_def)

text \<open>
  C6, amended. On a collection with unique \<^verbatim>\<open>_id\<close>s and at most one document for the
  GitHub id, two calls of \<^verbatim>\<open>findOrCreateFromGitHub\<close> with the same id and payload leave
  exactly one document for that id. The document and the collection after the second
  call are those of a single call made at the time of the second call; the document
  differs from the one after the first call in \<open>lastSyncedAt\<close> only.
\<close>

theorem upsert_idempotent:
  assumes "distinct (map oid (docs w))"
    and "length (filter (\<lambda>d. githubId d = gid) (docs w)) \<le> 1"
  shows "(let (r1, w1) = findOrCreateFromGitHub t1 gid g w;
              (r2, w2) = findOrCreateFromGitHub t2 gid g w1
          in (r2, w2) = findOrCreateFromGitHub t2 gid g w
             \<and> r2 = r1\<lparr>lastSyncedAt := Some t2\<rparr>
             \<and> docs w2 = map (\<lambda>d. if oid d = oid r1 then r2 else d) (docs w1)
             \<and> length (filter (\<lambda>d. githubId d = gid) (docs w1)) = 1
             \<and> length (filter (\<lambda>d. githubId d = gid) (docs w2)) = 1)"
proof -
  obtain r1 w1 where one: "findOrCreateFromGitHub t1 gid g w = (r1, w1)"
    by (cases "findOrCreateFromGitHub t1 gid g w")
  obtain r2 w2 where two: "findOrCreateFromGitHub t2 gid g w1 = (r2, w2)"
    by (cases "findOrCreateFromGitHub t2 gid g w1")
  have same: "(r2, w2) = findOrCreateFromGitHub t2 gid g w"
    using upsert_twice_eq [of t2 gid g t1 w] one two by simp
  have c1: "length (filter (\<lambda>d. githubId d = gid) (docs w1)) = 1"
    using upsert_count [OF assms, of t1 g] one by simp
  have c2: "length (filter (\<lambda>d. githubId d = gid) (docs w2)) = 1"
    using upsert_count [OF assms, of t2 g] same by (metis snd_conv)
  have found1: "findOne_githubId gid (docs w1) = Some r1"
  proof (cases "findOne_githubId gid (docs w)")
    case None
    then show ?thesis
      using one find_append_None [of "\<lambda>d. githubId d = gid" "docs w"]
      by (auto simp: upsert_missing findOne_githubId_def update_keeps new_RepoSnapshot_def)
  next
    case (Some r)
    then show ?thesis
      using one find_map_replace [of "\<lambda>d. githubId d = gid" "docs w" r "updateFromGitHub t1 g r"]
        find_Some_holds [of "\<lambda>d. githubId d = gid" "docs w" r]
      by (auto simp: upsert_existing findOne_githubId_def update_keeps)
  qed
  have r1: "\<exists>r. r1 = updateFromGitHub t1 g r"
    using one by (cases "findOne_githubId gid (docs w)") (auto simp: upsert_missing upsert_existing)
  have r2: "r2 = updateFromGitHub t2 g r1" "docs w2 = map (\<lambda>d. if oid d = oid r1 then r2 else d) (docs w1)"
    using two upsert_existing [OF found1, of t2 g] by auto
  have drift: "r2 = r1\<lparr>lastSyncedAt := Some t2\<rparr>"
    using r1 r2(1) by (auto simp: updateFromGitHub_def)
  show ?thesis
    unfolding Let_def one two prod.case
    using same drift r2(2) c1 c2 by (intro conjI)
qed

theorem upsert_idempotent_witness:
  "distinct (map oid (docs widget_world))
   \<and> length (filter (\<lambda>d. githubId d = 42) (docs widget_world)) \<le> 1
   \<and> (let (r1, w1) = findOrCreateFromGitHub 1000 42 widget widget_world;
           (r2, w2) = findOrCreateFromGitHub 2000 42 widget w1
       in (r2, w2) = findOrCreateFromGitHub 2000 42 widget widget_world
          \<and> r2 = r1\<lparr>lastSyncedAt := Some 2000\<rparr>
          \<and> docs w2 = map (\<lambda>d. if oid d = oid r1 then r2 else d) (docs w1)
          \<and> length (filter (\<lambda>d. githubId d = 42) (docs w1)) = 1
          \<and> length (filter (\<lambda>d. githubId d = 42) (docs w2)) = 1)"
proof -
  have h1: "distinct (map oid (docs widget_world))"
    by (simp add: widget_world_def)
  have h2: "length (filter (\<lambda>d. githubId d = 42) (docs widget_world)) \<le> 1"
    by (simp add: widget_world_def)
  show ?thesis
    using h1 h2 upsert_idempotent [OF h1 h2, of 1000 widget 2000] by simp
qed

text \<open>
  C7. When a document for the GitHub id is stored, an upsert with that id and any payload
  keeps the document's \<^verbatim>\<open>_id\<close> and GitHub id, gives it the payload's full name, adds no
  document, and a lookup by the GitHub id returns the updated document.
\<close>

theorem identity_survives_rename:
  assumes "findOne_githubId gid (docs w) = Some r"
  shows "(let (r', w') = findOrCreateFromGitHub now gid g w
          in findOne_githubId gid (docs w') = Some r'
             \<and> oid r' = oid r \<and> githubId r' = gid \<and> fullName r' = gh_full_name g
             \<and> length (docs w') = length (docs w)
             \<and> readme r' = readme r \<and> languages r' = languages r)"
proof -
  let ?r' = "updateFromGitHub now g r"
  have gid: "githubId r = gid"
    using assms find_Some_holds [of "\<lambda>d. githubId d = gid" "docs w" r]
    by (simp add: findOne_githubId_def)
  then have "findOne_githubId gid (map (\<lambda>d. if oid d = oid r then ?r' else d) (docs w)) = Some ?r'"
    using assms find_map_replace [of "\<lambda>d. githubId d = gid" "docs w" r ?r']
    by (simp add: findOne_githubId_def update_keeps)
  moreover have "fullName ?r' = gh_full_name g" "readme ?r' = readme r" "languages ?r' = languages r"
    by (simp_all add: updateFromGitHub_def)
  ultimately show ?thesis
    using gid by (simp add: upsert_existing [OF assms] update_keeps)
qed

theorem identity_survives_rename_witness:
  "findOne_githubId 42 (docs widget_world) = Some stored_widget
   \<and> fullName stored_widget = ''acme/widget''
   \<and> (let (r', w') = findOrCreateFromGitHub 5 42 (widget\<lparr>gh_full_name := ''acme/gadget''\<rparr>) widget_world
       in findOne_githubId 42 (docs w') = Some r'
          \<and> oid r' = oid stored_widget \<and> githubId r' = 42 \<and> fullName r' = ''acme/gadget''
          \<and> length (docs w') = length (docs widget_world)
          \<and> readme r' = readme stored_widget \<and> languages r' = languages stored_widget)"
proof -
  have h: "findOne_githubId 42 (docs widget_world) = Some stored_widget"
    by (simp add: widget_world_def stored_widget_def findOne_githubId_def
        updateFromGitHub_def new_RepoSnapshot_def)
  have n: "fullName stored_widget = ''acme/widget''"
    by (simp add: stored_widget_def updateFromGitHub_def widget_def)
  show ?thesis
    using h n identity_survives_rename [OF h, of 5 "widget\<lparr>gh_full_name := ''acme/gadget''\<rparr>"]
    by simp
qed

subsection \<open>The guard of the remote search\<close>

text \<open>
  C10. When the query is missing or its trimmed length is below 2, \<^verbatim>\<open>searchRepos\<close> throws
  the bad-request error and the world, the request log included, is as before. If the
  request log has changed, the query has trimmed length at least 2; and for such a query
  exactly one request is sent.
\<close>

theorem searchRepos_short_query:
  "((case query of None \<Rightarrow> True | Some q \<Rightarrow> length (trim q) < 2) \<longrightarrow>
      searchRepos gh query options w =
        (Inl (badRequest ''Search query must be at least 2 characters''), w))
   \<and> (requests (snd (searchRepos gh query options w)) \<noteq> requests w \<longrightarrow>
        (\<exists>q. query = Some q \<and> 2 \<le> length (trim q)))
   \<and> (\<forall>q. query = Some q \<and> 2 \<le> length (trim q) \<longrightarrow>
        (\<exists>r. requests (snd (searchRepos gh query options w)) = requests w @ [r]))"
proof (intro conjI impI allI)
  assume "case query of None \<Rightarrow> True | Some q \<Rightarrow> length (trim q) < 2"
  then show "searchRepos gh query options w =
        (Inl (badRequest ''Search query must be at least 2 characters''), w)"
    by (cases query; cases "the query") (auto simp: searchRepos_def)
next
  assume "requests (snd (searchRepos gh query options w)) \<noteq> requests w"
  then show "\<exists>q. query = Some q \<and> 2 \<le> length (trim q)"
    by (cases query; cases "the query") (auto simp: searchRepos_def split: if_splits)
next
  fix q assume "query = Some q \<and> 2 \<le> length (trim q)"
  then show "\<exists>r. requests (snd (searchRepos gh query options w)) = requests w @ [r]"
    by (cases q)
      (auto simp: searchRepos_def searchRepositories_def client_get_def trim_def Let_def
        split: sum.splits prod.splits option.splits)
qed

theorem searchRepos_short_query_witness:
  "length (trim '' a '') < 2
   \<and> searchRepos github_down (Some '' a '')
        \<lparr>o_language = None, o_sort = None, o_page = None, o_limit = None\<rparr> empty_world
       = (Inl (badRequest ''Search query must be at least 2 characters''), empty_world)
   \<and> 2 \<le> length (trim '' ab '')
   \<and> (\<exists>r. requests (snd (searchRepos github_down (Some '' ab '')
              \<lparr>o_language = None, o_sort = None, o_page = None, o_limit = None\<rparr> empty_world))
            = requests empty_world @ [r])"
proof -
  let ?o = "\<lparr>o_language = None, o_sort = None, o_page = None, o_limit = None\<rparr>"
  have a: "length (trim '' a '') < 2" and b: "2 \<le> length (trim '' ab '')"
    by (simp_all add: trim_def isWhiteSpace_def)
  have "searchRepos github_down (Some '' a '') ?o empty_world
       = (Inl (badRequest ''Search query must be at least 2 characters''), empty_world)"
    using a searchRepos_short_query [of "Some '' a ''" github_down ?o empty_world] by simp
  moreover have "\<exists>r. requests (snd (searchRepos github_down (Some '' ab '') ?o empty_world))
       = requests empty_world @ [r]"
    using b searchRepos_short_query [of "Some '' ab ''" github_down ?o empty_world] by simp
  ultimately show ?thesis using a b by simp
qed

subsection \<open>Language lists\<close>

lemma byte_counts_exact:
  assumes "sum_list (map snd ls) < (2::nat) ^ 53" and "l \<in> set ls"
  shows "json_number (snd l) = Num (of_nat (snd l))" and "snd l \<le> sum_list (map snd ls)"
proof -
  show le: "snd l \<le> sum_list (map snd ls)"
    using assms(2) member_le_sum_list [of "snd l" "map snd ls"] by simp
  then show "json_number (snd l) = Num (of_nat (snd l))"
    using assms(1) by (intro json_number_exact) simp
qed

lemma syncLanguages_entries:
  assumes "sum_list (map snd ls) = t" and "t < 2 ^ 53"
  shows "syncLanguages ls =
     map (\<lambda>(name', bytes').
            \<lparr>lang_name = name', bytes = Num (of_nat bytes'),
             percentage =
               (if 0 < t
                then Math_round (js_mul (js_div (Num (of_nat bytes')) (Num (of_nat t))) (Num 100))
                else Num 0)\<rparr>) ls"
proof -
  have total: "foldl js_add (Num 0) (map (\<lambda>(name', bytes'). json_number bytes') ls) = Num (of_nat t)"
    using totalBytes_exact [of ls] assms by simp
  have "json_number (snd l) = Num (of_nat (snd l))" if "l \<in> set ls" for l
    using byte_counts_exact(1) [of ls l] assms that by simp
  then show ?thesis
    unfolding syncLanguages_def total Let_def by (intro map_cong) (auto simp: split_beta)
qed

lemma loadedLanguages_entries:
  assumes "sum_list (map snd ls) = t" and "t < 2 ^ 53"
  shows "loadedLanguages ls =
     map (\<lambda>(name', bytes').
            \<lparr>lang_name = name', bytes = Num (of_nat bytes'),
             percentage =
               js_div (Math_round (js_mul (js_mul (js_div (Num (of_nat bytes')) (Num (of_nat t)))
                                             (Num 100)) (Num 10)))
                 (Num 10)\<rparr>) ls"
proof -
  have total: "foldl js_add (Num 0) (map (\<lambda>(name', bytes'). json_number bytes') ls) = Num (of_nat t)"
    using totalBytes_exact [of ls] assms by simp
  have "json_number (snd l) = Num (of_nat (snd l))" if "l \<in> set ls" for l
    using byte_counts_exact(1) [of ls l] assms that by simp
  then show ?thesis
    unfolding loadedLanguages_def total Let_def by (intro map_cong) (auto simp: split_beta)
qed

lemma list_all2_map_same:
  "(\<And>x. x \<in> set xs \<Longrightarrow> P x (f x)) \<Longrightarrow> list_all2 P xs (map f xs)"
  by (simp add: list_all2_map2 list_all2_same)

lemma syncLanguages_percentages:
  assumes "sum_list (map snd ls) = t" and "0 < t" and "t < 2 ^ 53"
  shows "list_all2
     (\<lambda>(name', bytes') entry.
        lang_name entry = name' \<and> bytes entry = Num (of_nat bytes')
        \<and> (\<exists>k::int. percentage entry = Num (of_int k) \<and> 0 \<le> k \<and> k \<le> 100
              \<and> \<bar>of_int k - 100 * (rat_of_nat bytes' / rat_of_nat t)\<bar> \<le> 1 / 2 + 300 / 2 ^ 53))
     ls (syncLanguages ls)"
  unfolding syncLanguages_entries [OF assms(1,3)]
proof (rule list_all2_map_same)
  fix l assume l: "l \<in> set ls"
  obtain n b where nb: "l = (n, b)" by (cases l)
  have "b \<le> t"
    using byte_counts_exact(2) [of ls l] l assms by (simp add: nb)
  then show "(case l of (name', bytes') \<Rightarrow> \<lambda>entry.
        lang_name entry = name' \<and> bytes entry = Num (of_nat bytes')
        \<and> (\<exists>k::int. percentage entry = Num (of_int k) \<and> 0 \<le> k \<and> k \<le> 100
              \<and> \<bar>of_int k - 100 * (rat_of_nat bytes' / rat_of_nat t)\<bar> \<le> 1 / 2 + 300 / 2 ^ 53))
     ((\<lambda>(name', bytes').
            \<lparr>lang_name = name', bytes = Num (of_nat bytes'),
             percentage =
               (if 0 < t
                then Math_round (js_mul (js_div (Num (of_nat bytes')) (Num (of_nat t))) (Num 100))
                else Num 0)\<rparr>) l)"
    using whole_percent [of b t] assms(2,3) by (simp add: nb)
qed

lemma loadedLanguages_percentages:
  assumes "sum_list (map snd ls) = t" and "0 < t" and "t < 2 ^ 53"
  shows "list_all2
     (\<lambda>(name', bytes') entry.
        lang_name entry = name' \<and> bytes entry = Num (of_nat bytes')
        \<and> (\<exists>k::int. percentage entry = double (of_int k / 10) \<and> 0 \<le> k \<and> k \<le> 1000
              \<and> \<bar>of_int k / 10 - 100 * (rat_of_nat bytes' / rat_of_nat t)\<bar> \<le> 1 / 20 + 401 / 2 ^ 53))
     ls (loadedLanguages ls)"
  unfolding loadedLanguages_entries [OF assms(1,3)]
proof (rule list_all2_map_same)
  fix l assume l: "l \<in> set ls"
  obtain n b where nb: "l = (n, b)" by (cases l)
  have "b \<le> t"
    using byte_counts_exact(2) [of ls l] l assms by (simp add: nb)
  then show "(case l of (name', bytes') \<Rightarrow> \<lambda>entry.
        lang_name entry = name' \<and> bytes entry = Num (of_nat bytes')
        \<and> (\<exists>k::int. percentage entry = double (of_int k / 10) \<and> 0 \<le> k \<and> k \<le> 1000
              \<and> \<bar>of_int k / 10 - 100 * (rat_of_nat bytes' / rat_of_nat t)\<bar> \<le> 1 / 20 + 401 / 2 ^ 53))
     ((\<lambda>(name', bytes').
            \<lparr>lang_name = name', bytes = Num (of_nat bytes'),
             percentage =
               js_div (Math_round (js_mul (js_mul (js_div (Num (of_nat bytes')) (Num (of_nat t)))
                                             (Num 100)) (Num 10)))
                 (Num 10)\<rparr>) l)"
    using tenth_percent [of b t] assms(2,3) by (simp add: nb)
qed

text \<open>With a total below \<open>2\<^sup>5\<^sup>3\<close> neither list holds a \<open>NaN\<close>, unless \<^verbatim>\<open>loadLanguages\<close> divides by zero.\<close>

lemma syncLanguages_valid:
  assumes "sum_list (map snd ls) < 2 ^ 53"
  shows "list_all (\<lambda>entry. bytes entry \<noteq> NaN \<and> percentage entry \<noteq> NaN) (syncLanguages ls)"
proof (cases "0 < sum_list (map snd ls)")
  case True
  have "list_all2 (\<lambda>l entry. bytes entry \<noteq> NaN \<and> percentage entry \<noteq> NaN) ls (syncLanguages ls)"
    by (rule list_all2_mono [OF syncLanguages_percentages [OF refl True assms]]) auto
  then show ?thesis
    by (auto simp: list_all_iff list_all2_conv_all_nth in_set_conv_nth)
next
  case False
  obtain t where t: "sum_list (map snd ls) = t" by simp
  have small: "t < 2 ^ 53" using assms unfolding t .
  have "\<not> 0 < t" using False unfolding t .
  then show ?thesis
    unfolding syncLanguages_entries [OF t small]
    by (simp add: list_all_iff split_beta)
qed

lemma loadedLanguages_valid:
  assumes "sum_list (map snd ls) < 2 ^ 53" and "0 < sum_list (map snd ls)"
  shows "list_all (\<lambda>entry. bytes entry \<noteq> NaN \<and> percentage entry \<noteq> NaN) (loadedLanguages ls)"
proof -
  have "list_all2 (\<lambda>l entry. bytes entry \<noteq> NaN \<and> percentage entry \<noteq> NaN) ls (loadedLanguages ls)"
    by (rule list_all2_mono [OF loadedLanguages_percentages [OF refl assms(2,1)]])
      (auto simp: double_not_NaN)
  then show ?thesis
    by (auto simp: list_all_iff list_all2_conv_all_nth in_set_conv_nth)
qed


subsection \<open>Synchronising one repository\<close>

lemma save_doc_by_id:
  "findById i ds = Some r \<Longrightarrow> oid r' = oid r \<Longrightarrow>
   save_doc r' ds = map (\<lambda>d. if oid d = oid r then r' else d) ds"
  using save_doc_stored [of "\<lambda>d. oid d = i" ds r r'] by (simp add: findById_def)

lemma findById_replace:
  "findById i ds = Some r \<Longrightarrow> oid r' = oid r \<Longrightarrow>
   findById i (map (\<lambda>d. if oid d = oid r then r' else d) ds) = Some r'"
  using find_map_replace [of "\<lambda>d. oid d = i" ds r r'] find_Some_holds [of "\<lambda>d. oid d = i" ds r]
  by (simp add: findById_def)

lemma save_doc_member: "doc \<in> set (save_doc doc ds)"
  by (auto simp: save_doc_def list_ex_iff)

lemma upsert_result:
  "findOrCreateFromGitHub now gid g w = (r, w') \<Longrightarrow>
   githubId r = gid \<and> fullName r = gh_full_name g \<and> lastSyncedAt r = Some now \<and> syncError r = None
   \<and> requests w' = requests w"
  by (cases "findOne_githubId gid (docs w)")
    (auto simp: findOrCreateFromGitHub_def findOne_githubId_def updateFromGitHub_def
      new_RepoSnapshot_def save_def Let_def dest: find_Some_holds)

lemma schema_update: "schema_accepts (updateFromGitHub now g r) = schema_accepts r"
  by (simp add: schema_accepts_def updateFromGitHub_def)

lemma schema_new: "schema_accepts (new_RepoSnapshot now i gid)"
  by (simp add: schema_accepts_def new_RepoSnapshot_def)

lemma schema_save_doc:
  "schema_accepts d \<Longrightarrow> list_all schema_accepts ds \<Longrightarrow> list_all schema_accepts (save_doc d ds)"
  by (auto simp: save_doc_def list_all_iff)

lemma upsert_saved:
  assumes "findOrCreateFromGitHub now gid g w = (r, w')"
  shows "docs w' = save_doc r (docs w)"
    and "r = updateFromGitHub now g
               (case findOne_githubId gid (docs w) of
                  Some d \<Rightarrow> d
                | None \<Rightarrow> new_RepoSnapshot now (newObjectId (docs w)) gid)"
  using assms
  by (auto simp: findOrCreateFromGitHub_def save_def Let_def split: option.splits)

lemma schema_upsert:
  assumes "list_all schema_accepts (docs w)" and "findOrCreateFromGitHub now gid g w = (r, w')"
  shows "schema_accepts r" and "list_all schema_accepts (docs w')"
proof -
  show r: "schema_accepts r"
  proof (cases "findOne_githubId gid (docs w)")
    case None
    then show ?thesis
      using upsert_saved(2) [OF assms(2)] by (simp add: schema_update schema_new)
  next
    case (Some d)
    then have "d \<in> set (docs w)"
      using find_Some_holds [of "\<lambda>d. githubId d = gid" "docs w" d] by (simp add: findOne_githubId_def)
    then have "schema_accepts d"
      using assms(1) by (simp add: list_all_iff)
    then show ?thesis
      using Some upsert_saved(2) [OF assms(2)] by (simp add: schema_update)
  qed
  show "list_all schema_accepts (docs w')"
    using r assms(1) by (simp add: upsert_saved(1) [OF assms(2)] schema_save_doc)
qed

text \<open>
  What \<^verbatim>\<open>syncRepository\<close> does once the repository has been fetched and upserted: the
  document with a README and a language list fetched where they were missing, the
  requests sent for them, and the last save.
\<close>

lemma syncRepository_unfold:
  assumes "interceptor (repos_endpoint gh (owner @ ''/'' @ repo)) = Inr g"
    and "findOrCreateFromGitHub now (gh_id g) g
           (w\<lparr>requests := requests w @ [ReposGet (owner @ ''/'' @ repo)]\<rparr>) = (r, w2)"
  shows "syncRepository gh now owner repo w =
     (let wanted = (\<not> truthy (readme r) \<or> readmeFetchedAt r = None);
          r3 = (if wanted
                then (case interceptor (readme_endpoint gh (owner @ ''/'' @ repo)) of
                        Inr data \<Rightarrow>
                          if data \<noteq> [] then r\<lparr>readme := Some data, readmeFetchedAt := Some now\<rparr>
                          else r
                      | Inl e \<Rightarrow> r)
                else r);
          w3 = (if wanted then w2\<lparr>requests := requests w2 @ [ReadmeGet (owner @ ''/'' @ repo)]\<rparr>
                else w2);
          r4 = (if languages r3 = []
                then (case interceptor (languages_endpoint gh (owner @ ''/'' @ repo)) of
                        Inr ls \<Rightarrow> r3\<lparr>languages := syncLanguages ls\<rparr>
                      | Inl e \<Rightarrow> r3)
                else r3);
          w4 = (if languages r3 = []
                then w3\<lparr>requests := requests w3 @ [LanguagesGet (owner @ ''/'' @ repo)]\<rparr>
                else w3)
      in if schema_accepts r4 then (Inr r4, save r4 w4) else (Inl validationError, w4))"
  using assms
  by (simp add: syncRepository_def getRepository_def getReadme_def getLanguages_def client_get_def
      save_validated_def syncRepository_catch_def validationError_def Let_def
      split: sum.splits)

lemma syncRepository_fails:
  "interceptor (repos_endpoint gh (owner @ ''/'' @ repo)) = Inl e \<Longrightarrow>
   syncRepository gh now owner repo w =
     (Inl (if statusCode_is e 404
           then notFound (''Repository '' @ owner @ ''/'' @ repo @ '' not found on GitHub'')
           else e),
      w\<lparr>requests := requests w @ [ReposGet (owner @ ''/'' @ repo)]\<rparr>)"
  by (simp add: syncRepository_def syncRepository_catch_def getRepository_def client_get_def)

lemma syncRepository_requests:
  "\<exists>rs. requests (snd (syncRepository gh now owner repo w)) =
        requests w @ ReposGet (owner @ ''/'' @ repo) # rs"
proof (cases "interceptor (repos_endpoint gh (owner @ ''/'' @ repo))")
  case (Inl e)
  then show ?thesis using syncRepository_fails [of gh owner repo e now w] by simp
next
  case (Inr g)
  let ?w1 = "w\<lparr>requests := requests w @ [ReposGet (owner @ ''/'' @ repo)]\<rparr>"
  obtain r w2 where up: "findOrCreateFromGitHub now (gh_id g) g ?w1 = (r, w2)"
    by (cases "findOrCreateFromGitHub now (gh_id g) g ?w1")
  have w2: "requests w2 = requests w @ [ReposGet (owner @ ''/'' @ repo)]"
    using upsert_result [OF up] by simp
  show ?thesis
    unfolding syncRepository_unfold [OF Inr up] Let_def
    using w2 by (simp add: save_def)
qed

text \<open>
  The synchronisation succeeds when the repository is fetched, the stored documents are
  valid, a README that GitHub returns has at most 50000 characters and a language map
  that it returns has a total below \<open>2\<^sup>5\<^sup>3\<close>. The snapshot is stored, it carries the payload,
  and when no language list was cached for the repository, its list is the one built
  from the fetched map.
\<close>

lemma syncRepository_succeeds:
  assumes get: "interceptor (repos_endpoint gh (owner @ ''/'' @ repo)) = Inr g"
    and store: "list_all schema_accepts (docs w)"
    and short: "\<And>text'. interceptor (readme_endpoint gh (owner @ ''/'' @ repo)) = Inr text'
                  \<Longrightarrow> length text' \<le> 50000"
    and small: "\<And>ls. interceptor (languages_endpoint gh (owner @ ''/'' @ repo)) = Inr ls
                  \<Longrightarrow> sum_list (map snd ls) < 2 ^ 53"
  shows "\<exists>s w'. syncRepository gh now owner repo w = (Inr s, w') \<and> s \<in> set (docs w')
     \<and> githubId s = gh_id g \<and> fullName s = gh_full_name g
     \<and> lastSyncedAt s = Some now \<and> syncError s = None
     \<and> list_all schema_accepts (docs w')
     \<and> ((case findOne_githubId (gh_id g) (docs w) of Some d \<Rightarrow> languages d = [] | None \<Rightarrow> True) \<longrightarrow>
          (case interceptor (languages_endpoint gh (owner @ ''/'' @ repo)) of
             Inr ls \<Rightarrow> languages s = syncLanguages ls
           | Inl e \<Rightarrow> languages s = []))"
proof -
  let ?path = "owner @ ''/'' @ repo"
  let ?w1 = "w\<lparr>requests := requests w @ [ReposGet ?path]\<rparr>"
  obtain r w2 where up: "findOrCreateFromGitHub now (gh_id g) g ?w1 = (r, w2)"
    by (cases "findOrCreateFromGitHub now (gh_id g) g ?w1")
  note core = upsert_result [OF up]
  have valid: "schema_accepts r" "list_all schema_accepts (docs w2)"
    using schema_upsert [OF _ up] store by simp_all
  have cached: "languages r = (case findOne_githubId (gh_id g) (docs w) of
                                 Some d \<Rightarrow> languages d | None \<Rightarrow> [])"
    using upsert_saved(2) [OF up]
    by (simp add: updateFromGitHub_def new_RepoSnapshot_def split: option.splits)
  define wanted where "wanted = (\<not> truthy (readme r) \<or> readmeFetchedAt r = None)"
  define r3 where "r3 = (if wanted
                then (case interceptor (readme_endpoint gh ?path) of
                        Inr data \<Rightarrow>
                          if data \<noteq> [] then r\<lparr>readme := Some data, readmeFetchedAt := Some now\<rparr>
                          else r
                      | Inl e \<Rightarrow> r)
                else r)"
  define w3 where "w3 = (if wanted then w2\<lparr>requests := requests w2 @ [ReadmeGet ?path]\<rparr> else w2)"
  define r4 where "r4 = (if languages r3 = []
                then (case interceptor (languages_endpoint gh ?path) of
                        Inr ls \<Rightarrow> r3\<lparr>languages := syncLanguages ls\<rparr>
                      | Inl e \<Rightarrow> r3)
                else r3)"
  define w4 where "w4 = (if languages r3 = []
                then w3\<lparr>requests := requests w3 @ [LanguagesGet ?path]\<rparr>
                else w3)"
  have run: "syncRepository gh now owner repo w =
      (if schema_accepts r4 then (Inr r4, save r4 w4) else (Inl validationError, w4))"
    unfolding syncRepository_unfold [OF get up] Let_def r4_def w4_def r3_def w3_def wanted_def ..
  have r3: "schema_accepts r3" "githubId r3 = githubId r" "fullName r3 = fullName r"
    "lastSyncedAt r3 = lastSyncedAt r" "syncError r3 = syncError r" "languages r3 = languages r"
    using valid(1) short
    by (auto simp: r3_def schema_accepts_def split: sum.splits)
  have r4: "schema_accepts r4" "githubId r4 = githubId r" "fullName r4 = fullName r"
    "lastSyncedAt r4 = lastSyncedAt r" "syncError r4 = syncError r"
    using r3 small syncLanguages_valid
    by (auto simp: r4_def schema_accepts_def split: sum.splits)
  have langs: "languages r = [] \<Longrightarrow>
      (case interceptor (languages_endpoint gh ?path) of
             Inr ls \<Rightarrow> languages r4 = syncLanguages ls
           | Inl e \<Rightarrow> languages r4 = [])"
    using r3(6) by (simp add: r4_def split: sum.splits)
  have docs4: "docs w4 = docs w2"
    by (simp add: w4_def w3_def)
  have "list_all schema_accepts (docs (save r4 w4))"
    using r4(1) valid(2) by (simp add: save_def docs4 schema_save_doc)
  moreover have "r4 \<in> set (docs (save r4 w4))"
    by (simp add: save_def save_doc_member)
  moreover have "syncRepository gh now owner repo w = (Inr r4, save r4 w4)"
    using run r4(1) by simp
  moreover have "(case findOne_githubId (gh_id g) (docs w) of Some d \<Rightarrow> languages d = [] | None \<Rightarrow> True) \<longrightarrow>
          (case interceptor (languages_endpoint gh ?path) of
             Inr ls \<Rightarrow> languages r4 = syncLanguages ls
           | Inl e \<Rightarrow> languages r4 = [])"
    using langs cached by (simp split: option.splits)
  ultimately show ?thesis
    using core r4(2-5) by (intro exI [of _ r4] exI [of _ "save r4 w4"]) simp
qed


text \<open>
  C8. \<^verbatim>\<open>syncRepo\<close> on a stored document: when the fetch fails, the document after the call
  is the old one with \<open>syncError\<close> set to the error's message, so \<open>lastSyncedAt\<close> and every
  other field are as before; when the fetch succeeds, the document is the old one updated
  from the payload, with \<open>lastSyncedAt\<close> the time of the call and \<open>syncError\<close> null. In both
  cases the stored document is the one the caller holds and no other document changes.
\<close>

theorem syncRepo_bookkeeping:
  assumes "findById (oid repo) (docs w) = Some repo"
  shows "(let (out, w') = syncRepo gh now repo w;
              repo' = (case out of Inl (e, r) \<Rightarrow> r | Inr r \<Rightarrow> r)
          in findById (oid repo) (docs w') = Some repo'
             \<and> docs w' = map (\<lambda>d. if oid d = oid repo then repo' else d) (docs w)
             \<and> (case interceptor (repos_endpoint gh (fullName repo)) of
                  Inl e \<Rightarrow> out = Inl (e, repo')
                           \<and> repo' = repo\<lparr>syncError := Some (message e)\<rparr>
                           \<and> lastSyncedAt repo' = lastSyncedAt repo
                | Inr g \<Rightarrow> out = Inr repo'
                           \<and> repo' = updateFromGitHub now g repo
                           \<and> lastSyncedAt repo' = Some now \<and> syncError repo' = None))"
proof (cases "interceptor (repos_endpoint gh (fullName repo))")
  case (Inl e)
  then show ?thesis
    using save_doc_by_id [OF assms, of "repo\<lparr>syncError := Some (message e)\<rparr>"]
      findById_replace [OF assms, of "repo\<lparr>syncError := Some (message e)\<rparr>"]
    by (simp add: syncRepo_def getRepositoryByFullName_def client_get_def save_def Let_def)
next
  case (Inr g)
  then show ?thesis
    using save_doc_by_id [OF assms, of "updateFromGitHub now g repo"]
      findById_replace [OF assms, of "updateFromGitHub now g repo"]
    by (simp add: syncRepo_def getRepositoryByFullName_def client_get_def save_def update_keeps Let_def)
      (simp add: updateFromGitHub_def)
qed


theorem syncRepo_bookkeeping_witness:
  "findById (oid stored_widget) (docs widget_world) = Some stored_widget
   \<and> syncRepo github_down 5 stored_widget widget_world =
       (Inl (internal ''Failed to connect to GitHub API'',
             stored_widget\<lparr>syncError := Some ''Failed to connect to GitHub API''\<rparr>),
        \<lparr>docs = [stored_widget\<lparr>syncError := Some ''Failed to connect to GitHub API''\<rparr>],
         requests = [ReposGet ''acme/widget'']\<rparr>)
   \<and> lastSyncedAt (stored_widget\<lparr>syncError := Some ''Failed to connect to GitHub API''\<rparr>) = Some 0"
proof -
  have h: "findById (oid stored_widget) (docs widget_world) = Some stored_widget"
    by (simp add: findById_def widget_world_def)
  have f: "fullName stored_widget = ''acme/widget''" "lastSyncedAt stored_widget = Some 0"
    by (simp_all add: stored_widget_def updateFromGitHub_def widget_def)
  obtain out w' where o: "syncRepo github_down 5 stored_widget widget_world = (out, w')"
    by (cases "syncRepo github_down 5 stored_widget widget_world")
  have r: "requests w' = [ReposGet ''acme/widget'']"
    using o f by (auto simp: syncRepo_def getRepositoryByFullName_def client_get_def save_def
        github_down_def widget_world_def Let_def)
  have "out = Inl (internal ''Failed to connect to GitHub API'',
             stored_widget\<lparr>syncError := Some ''Failed to connect to GitHub API''\<rparr>)
        \<and> docs w' = [stored_widget\<lparr>syncError := Some ''Failed to connect to GitHub API''\<rparr>]"
    using syncRepo_bookkeeping [OF h, of github_down 5] o f
    by (auto simp: github_down_def internal_def widget_world_def Let_def)
  then show ?thesis
    using h o r f by simp
qed

subsection \<open>Stale fallback\<close>

text \<open>
  C1 as stated fails on the \<^verbatim>\<open>getRepositoryById\<close> path: when GitHub cannot be reached, the
  cached snapshot comes back as it is and no error is recorded in \<open>syncError\<close>, neither in
  the returned snapshot nor in the collection.
\<close>

theorem getRepositoryById_leaves_syncError_counterexample:
  "getRepositoryById github_down 7200000 ''42'' widget_world =
     (Inr stored_widget, widget_world\<lparr>requests := [RepositoriesGet 42]\<rparr>)
   \<and> interceptor (repositories_endpoint github_down 42) = Inl (internal ''Failed to connect to GitHub API'')
   \<and> syncError stored_widget = None"
  by (simp add: getRepositoryById_def parseInt_def isWhiteSpace_def isDigit_def digitsValue_def
      widget_world_def findOne_githubId_def stored_widget_def updateFromGitHub_def
      new_RepoSnapshot_def cachedIsFresh_def client_get_def github_down_def)

text \<open>
  C1, amended. For a stored snapshot whose refresh is attempted and whose remote fetch
  fails, neither path throws. \<^verbatim>\<open>getRepoById\<close> returns the cached snapshot with \<open>syncError\<close>
  set to the error's message and stores it so. \<^verbatim>\<open>getRepositoryById\<close> returns the cached
  snapshot unchanged and leaves the collection as it was, whether the fetch by id fails
  or the fetch by full name that follows it does.
\<close>

theorem stale_fallback:
  "(findById repoId (docs w) = Some repo \<and> (forceSync \<or> needsSync now repo)
      \<and> interceptor (repos_endpoint gh (fullName repo)) = Inl e \<longrightarrow>
    getRepoById gh now repoId forceSync w =
      (Inr (repo\<lparr>syncError := Some (message e)\<rparr>),
       w\<lparr>requests := requests w @ [ReposGet (fullName repo)],
         docs := map (\<lambda>d. if oid d = oid repo then repo\<lparr>syncError := Some (message e)\<rparr> else d)
                   (docs w)\<rparr>))
   \<and> (parseInt rid = Some gid \<and> findOne_githubId gid (docs w) = Some s \<and> \<not> cachedIsFresh now s
      \<and> interceptor (repositories_endpoint gh gid) = Inl e' \<longrightarrow>
    getRepositoryById gh now rid w = (Inr s, w\<lparr>requests := requests w @ [RepositoriesGet gid]\<rparr>))
   \<and> (parseInt rid = Some gid \<and> findOne_githubId gid (docs w) = Some s \<and> \<not> cachedIsFresh now s
      \<and> interceptor (repositories_endpoint gh gid) = Inr g
      \<and> owner_and_repo (gh_full_name g) = (owner, rname)
      \<and> interceptor (repos_endpoint gh (owner @ ''/'' @ rname)) = Inl e'' \<longrightarrow>
    getRepositoryById gh now rid w =
      (Inr s, w\<lparr>requests := requests w @ [RepositoriesGet gid, ReposGet (owner @ ''/'' @ rname)]\<rparr>))"
proof (intro conjI impI)
  assume a: "findById repoId (docs w) = Some repo \<and> (forceSync \<or> needsSync now repo)
      \<and> interceptor (repos_endpoint gh (fullName repo)) = Inl e"
  then have i: "oid repo = repoId"
    using find_Some_holds [of "\<lambda>d. oid d = repoId" "docs w" repo] by (simp add: findById_def)
  have "save_doc (repo\<lparr>syncError := Some (message e)\<rparr>) (docs w) =
        map (\<lambda>d. if oid d = oid repo then repo\<lparr>syncError := Some (message e)\<rparr> else d) (docs w)"
    using a i save_doc_by_id [of repoId "docs w" repo "repo\<lparr>syncError := Some (message e)\<rparr>"] by simp
  then show "getRepoById gh now repoId forceSync w =
      (Inr (repo\<lparr>syncError := Some (message e)\<rparr>),
       w\<lparr>requests := requests w @ [ReposGet (fullName repo)],
         docs := map (\<lambda>d. if oid d = oid repo then repo\<lparr>syncError := Some (message e)\<rparr> else d)
                   (docs w)\<rparr>)"
    using a by (auto simp: getRepoById_def syncRepo_def getRepositoryByFullName_def client_get_def
        save_def Let_def)
next
  assume "parseInt rid = Some gid \<and> findOne_githubId gid (docs w) = Some s \<and> \<not> cachedIsFresh now s
      \<and> interceptor (repositories_endpoint gh gid) = Inl e'"
  then show "getRepositoryById gh now rid w = (Inr s, w\<lparr>requests := requests w @ [RepositoriesGet gid]\<rparr>)"
    by (simp add: getRepositoryById_def client_get_def)
next
  assume a: "parseInt rid = Some gid \<and> findOne_githubId gid (docs w) = Some s \<and> \<not> cachedIsFresh now s
      \<and> interceptor (repositories_endpoint gh gid) = Inr g
      \<and> owner_and_repo (gh_full_name g) = (owner, rname)
      \<and> interceptor (repos_endpoint gh (owner @ ''/'' @ rname)) = Inl e''"
  then have "syncRepository gh now owner rname (w\<lparr>requests := requests w @ [RepositoriesGet gid]\<rparr>) =
     (Inl (if statusCode_is e'' 404
           then notFound (''Repository '' @ owner @ ''/'' @ rname @ '' not found on GitHub'')
           else e''),
      w\<lparr>requests := requests w @ [RepositoriesGet gid, ReposGet (owner @ ''/'' @ rname)]\<rparr>)"
    using syncRepository_fails [of gh owner rname e'' now "w\<lparr>requests := requests w @ [RepositoriesGet gid]\<rparr>"]
    by simp
  then show "getRepositoryById gh now rid w =
      (Inr s, w\<lparr>requests := requests w @ [RepositoriesGet gid, ReposGet (owner @ ''/'' @ rname)]\<rparr>)"
    using a by (simp add: getRepositoryById_def client_get_def)
qed

theorem stale_fallback_witness:
  "findById 1 (docs widget_world) = Some stored_widget \<and> needsSync 90000000 stored_widget
   \<and> interceptor (repos_endpoint github_down (fullName stored_widget))
       = Inl (internal ''Failed to connect to GitHub API'')
   \<and> getRepoById github_down 90000000 1 False widget_world =
       (Inr (stored_widget\<lparr>syncError := Some ''Failed to connect to GitHub API''\<rparr>),
        \<lparr>docs = [stored_widget\<lparr>syncError := Some ''Failed to connect to GitHub API''\<rparr>],
         requests = [ReposGet ''acme/widget'']\<rparr>)
   \<and> parseInt ''42'' = Some 42 \<and> findOne_githubId 42 (docs widget_world) = Some stored_widget
   \<and> \<not> cachedIsFresh 90000000 stored_widget
   \<and> interceptor (repositories_endpoint github_down 42)
       = Inl (internal ''Failed to connect to GitHub API'')
   \<and> getRepositoryById github_down 90000000 ''42'' widget_world =
       (Inr stored_widget, \<lparr>docs = [stored_widget], requests = [RepositoriesGet 42]\<rparr>)"
proof -
  let ?e = "internal ''Failed to connect to GitHub API''"
  have f: "fullName stored_widget = ''acme/widget''" "lastSyncedAt stored_widget = Some 0"
    "oid stored_widget = 1" "githubId stored_widget = 42"
    by (simp_all add: stored_widget_def updateFromGitHub_def widget_def new_RepoSnapshot_def)
  have h1: "findById 1 (docs widget_world) = Some stored_widget"
    using f by (simp add: findById_def widget_world_def)
  have h2: "needsSync 90000000 stored_widget"
    using f by (simp add: needsSync_def)
  have h3: "interceptor (repos_endpoint github_down (fullName stored_widget)) = Inl ?e"
    by (simp add: github_down_def)
  have h4: "parseInt ''42'' = Some 42"
    by (simp add: parseInt_def isWhiteSpace_def isDigit_def digitsValue_def)
  have h5: "findOne_githubId 42 (docs widget_world) = Some stored_widget"
    using f by (simp add: findOne_githubId_def widget_world_def)
  have h6: "\<not> cachedIsFresh 90000000 stored_widget"
    using f by (simp add: cachedIsFresh_def)
  have h7: "interceptor (repositories_endpoint github_down 42) = Inl ?e"
    by (simp add: github_down_def)
  note t = stale_fallback [of 1 widget_world stored_widget False 90000000 github_down ?e
      "''42''" 42 stored_widget ?e]
  have "getRepoById github_down 90000000 1 False widget_world =
       (Inr (stored_widget\<lparr>syncError := Some ''Failed to connect to GitHub API''\<rparr>),
        \<lparr>docs = [stored_widget\<lparr>syncError := Some ''Failed to connect to GitHub API''\<rparr>],
         requests = [ReposGet ''acme/widget'']\<rparr>)"
    using t h1 h2 h3 f by (simp add: widget_world_def internal_def)
  moreover have "getRepositoryById github_down 90000000 ''42'' widget_world =
       (Inr stored_widget, \<lparr>docs = [stored_widget], requests = [RepositoriesGet 42]\<rparr>)"
    using t h4 h5 h6 h7 by (simp add: widget_world_def)
  ultimately show ?thesis
    using h1 h2 h3 h4 h5 h6 h7 by simp
qed

subsection \<open>Freshness\<close>

lemma getRepositoryById_fresh:
  assumes "parseInt rid = Some gid" and "findOne_githubId gid (docs w) = Some c"
    and "cachedIsFresh now c"
  shows "getRepositoryById gh now rid w = (Inr c, w)"
  using assms by (simp add: getRepositoryById_def)

lemma getRepositoryById_stale:
  assumes "parseInt rid = Some gid" and "findOne_githubId gid (docs w) = Some c"
    and "\<not> cachedIsFresh now c"
  shows "\<exists>rs. requests (snd (getRepositoryById gh now rid w)) = requests w @ RepositoriesGet gid # rs"
proof (cases "interceptor (repositories_endpoint gh gid)")
  case (Inl e)
  then show ?thesis
    using assms by (simp add: getRepositoryById_def client_get_def)
next
  case (Inr g)
  let ?w1 = "w\<lparr>requests := requests w @ [RepositoriesGet gid]\<rparr>"
  obtain owner repo where o: "owner_and_repo (gh_full_name g) = (owner, repo)"
    by (cases "owner_and_repo (gh_full_name g)")
  obtain out w2 where s: "syncRepository gh now owner repo ?w1 = (out, w2)"
    by (cases "syncRepository gh now owner repo ?w1")
  obtain rs where "requests w2 = requests ?w1 @ ReposGet (owner @ ''/'' @ repo) # rs"
    using syncRepository_requests [of gh now owner repo ?w1] s by auto
  then show ?thesis
    using assms Inr o s by (cases out) (simp_all add: getRepositoryById_def client_get_def)
qed

text \<open>
  C4 as stated fails for \<^verbatim>\<open>needsSync\<close>, whose window is 24 hours: a snapshot synchronised
  two hours ago does not need a sync.
\<close>

theorem needsSync_two_hours_counterexample:
  "lastSyncedAt (new_RepoSnapshot 0 1 42) = Some (7200000 - 2 * 60 * 60 * 1000)
   \<and> needsSync 7200000 (new_RepoSnapshot 0 1 42) = False"
  by (simp add: needsSync_def new_RepoSnapshot_def)

text \<open>
  C4, amended. \<^verbatim>\<open>needsSync\<close> is true exactly when \<open>lastSyncedAt\<close> is null or more than
  24 hours old. The point lookup \<^verbatim>\<open>getRepositoryById\<close> takes the cached snapshot as stale
  exactly when \<open>lastSyncedAt\<close> is null or at least one hour old: it returns a fresh cached
  snapshot as it is, without any request and leaving the collection alone, and for a
  stale one it sends the request for the repository to GitHub. A snapshot synchronised
  now is fresh for both, so the point lookup serves it from the cache; one synchronised
  two hours ago is stale for the point lookup, which goes to GitHub, and does not need a
  sync according to \<^verbatim>\<open>needsSync\<close>.
\<close>

theorem freshness_windows:
  "needsSync now s =
     (case lastSyncedAt s of None \<Rightarrow> True | Some t \<Rightarrow> now - t > 24 * 60 * 60 * 1000)
   \<and> (\<not> cachedIsFresh now s) =
     (case lastSyncedAt s of None \<Rightarrow> True | Some t \<Rightarrow> now - t \<ge> 60 * 60 * 1000)
   \<and> needsSync now (s\<lparr>lastSyncedAt := Some now\<rparr>) = False
   \<and> cachedIsFresh now (s\<lparr>lastSyncedAt := Some now\<rparr>) = True
   \<and> cachedIsFresh now (s\<lparr>lastSyncedAt := Some (now - 2 * 60 * 60 * 1000)\<rparr>) = False
   \<and> needsSync now (s\<lparr>lastSyncedAt := Some (now - 2 * 60 * 60 * 1000)\<rparr>) = False
   \<and> (parseInt rid = Some gid \<and> findOne_githubId gid (docs w) = Some c \<and> cachedIsFresh now c \<longrightarrow>
        getRepositoryById gh now rid w = (Inr c, w))
   \<and> (parseInt rid = Some gid \<and> findOne_githubId gid (docs w) = Some c \<and> \<not> cachedIsFresh now c \<longrightarrow>
        (\<exists>rs. requests (snd (getRepositoryById gh now rid w))
                = requests w @ RepositoriesGet gid # rs))
   \<and> (parseInt rid = Some gid \<and> findOne_githubId gid (docs w) = Some c
        \<and> lastSyncedAt c = Some now \<longrightarrow>
        getRepositoryById gh now rid w = (Inr c, w))
   \<and> (parseInt rid = Some gid \<and> findOne_githubId gid (docs w) = Some c
        \<and> lastSyncedAt c = Some (now - 2 * 60 * 60 * 1000) \<longrightarrow>
        (\<exists>rs. requests (snd (getRepositoryById gh now rid w))
                = requests w @ RepositoriesGet gid # rs))"
proof -
  have windows: "needsSync now s =
     (case lastSyncedAt s of None \<Rightarrow> True | Some t \<Rightarrow> now - t > 24 * 60 * 60 * 1000)
   \<and> (\<not> cachedIsFresh now s) =
     (case lastSyncedAt s of None \<Rightarrow> True | Some t \<Rightarrow> now - t \<ge> 60 * 60 * 1000)
   \<and> needsSync now (s\<lparr>lastSyncedAt := Some now\<rparr>) = False
   \<and> cachedIsFresh now (s\<lparr>lastSyncedAt := Some now\<rparr>) = True
   \<and> cachedIsFresh now (s\<lparr>lastSyncedAt := Some (now - 2 * 60 * 60 * 1000)\<rparr>) = False
   \<and> needsSync now (s\<lparr>lastSyncedAt := Some (now - 2 * 60 * 60 * 1000)\<rparr>) = False"
    by (auto simp: needsSync_def cachedIsFresh_def split: option.splits)
  have fresh: "parseInt rid = Some gid \<and> findOne_githubId gid (docs w) = Some c \<and> cachedIsFresh now c \<longrightarrow>
        getRepositoryById gh now rid w = (Inr c, w)"
    using getRepositoryById_fresh [of rid gid w c now gh] by blast
  have stale: "parseInt rid = Some gid \<and> findOne_githubId gid (docs w) = Some c \<and> \<not> cachedIsFresh now c \<longrightarrow>
        (\<exists>rs. requests (snd (getRepositoryById gh now rid w))
                = requests w @ RepositoriesGet gid # rs)"
    using getRepositoryById_stale [of rid gid w c now gh] by blast
  have "lastSyncedAt c = Some now \<Longrightarrow> cachedIsFresh now c"
    and "lastSyncedAt c = Some (now - 2 * 60 * 60 * 1000) \<Longrightarrow> \<not> cachedIsFresh now c"
    by (simp_all add: cachedIsFresh_def)
  then have "parseInt rid = Some gid \<and> findOne_githubId gid (docs w) = Some c
        \<and> lastSyncedAt c = Some now \<longrightarrow>
        getRepositoryById gh now rid w = (Inr c, w)"
    and "parseInt rid = Some gid \<and> findOne_githubId gid (docs w) = Some c
        \<and> lastSyncedAt c = Some (now - 2 * 60 * 60 * 1000) \<longrightarrow>
        (\<exists>rs. requests (snd (getRepositoryById gh now rid w))
                = requests w @ RepositoriesGet gid # rs)"
    using fresh stale by blast+
  then show ?thesis
    using windows fresh stale by (intro conjI) blast+
qed

theorem freshness_windows_witness:
  "needsSync 90000000 stored_widget = True
   \<and> cachedIsFresh 3600000 stored_widget = False
   \<and> cachedIsFresh 3599999 stored_widget = True
   \<and> needsSync 86400000 stored_widget = False
   \<and> parseInt ''42'' = Some 42 \<and> findOne_githubId 42 (docs widget_world) = Some stored_widget
   \<and> lastSyncedAt stored_widget = Some 0
   \<and> getRepositoryById github_down 0 ''42'' widget_world = (Inr stored_widget, widget_world)
   \<and> getRepositoryById github_down 3599999 ''42'' widget_world = (Inr stored_widget, widget_world)
   \<and> (\<exists>rs. requests (snd (getRepositoryById github_down 3600000 ''42'' widget_world))
            = requests widget_world @ RepositoriesGet 42 # rs)
   \<and> (\<exists>rs. requests (snd (getRepositoryById github_down 7200000 ''42'' widget_world))
            = requests widget_world @ RepositoriesGet 42 # rs)"
proof -
  have p: "parseInt ''42'' = Some 42"
    by (simp add: parseInt_def isWhiteSpace_def isDigit_def digitsValue_def)
  have f: "findOne_githubId 42 (docs widget_world) = Some stored_widget"
    by (simp add: findOne_githubId_def widget_world_def stored_widget_def updateFromGitHub_def
        new_RepoSnapshot_def)
  have l: "lastSyncedAt stored_widget = Some 0"
    by (simp add: stored_widget_def updateFromGitHub_def)
  have t: "lastSyncedAt stored_widget = Some (7200000 - 2 * 60 * 60 * 1000)"
    by (simp add: l)
  note a = freshness_windows [of 90000000 stored_widget]
    and b = freshness_windows [of 3600000 stored_widget "''42''" 42 widget_world stored_widget github_down]
    and c = freshness_windows [of 3599999 stored_widget "''42''" 42 widget_world stored_widget github_down]
    and d = freshness_windows [of 86400000 stored_widget]
    and e = freshness_windows [of 0 stored_widget "''42''" 42 widget_world stored_widget github_down]
    and g = freshness_windows [of 7200000 stored_widget "''42''" 42 widget_world stored_widget github_down]
  have "needsSync 90000000 stored_widget = True" "cachedIsFresh 3600000 stored_widget = False"
    "cachedIsFresh 3599999 stored_widget = True" "needsSync 86400000 stored_widget = False"
    using a b c d by (simp_all add: l)
  moreover have "getRepositoryById github_down 0 ''42'' widget_world = (Inr stored_widget, widget_world)"
    using e p f l by blast
  moreover have "getRepositoryById github_down 3599999 ''42'' widget_world = (Inr stored_widget, widget_world)"
    using c p f \<open>cachedIsFresh 3599999 stored_widget = True\<close> by blast
  moreover have "\<exists>rs. requests (snd (getRepositoryById github_down 3600000 ''42'' widget_world))
            = requests widget_world @ RepositoriesGet 42 # rs"
    using b p f \<open>cachedIsFresh 3600000 stored_widget = False\<close> by blast
  moreover have "\<exists>rs. requests (snd (getRepositoryById github_down 7200000 ''42'' widget_world))
            = requests widget_world @ RepositoriesGet 42 # rs"
    using g p f t by blast
  ultimately show ?thesis
    using p f l by (intro conjI)
qed

subsection \<open>Cold miss\<close>




subsection \<open>Bulk synchronisation\<close>

lemma catch_unnumbered: "unnumbered e \<Longrightarrow> syncRepository_catch owner repo e = e"
  by (cases e) (simp_all add: syncRepository_catch_def)











subsubsection \<open>The schedule\<close>














subsubsection \<open>Targets that do not get in each other's way\<close>












subsubsection \<open>The outcomes\<close>








text \<open>
  Two synchronisations of the same repository that is not stored yet: when their
  completions alternate, both find no document and the second insertion is refused by
  the unique index; when the first is settled before the second starts its lookup, the
  second updates the document of the first and both are fulfilled.
\<close>

lemma same_repository_twice:
  "map isl (fst (allSettled_syncRepository (github_acme NoResponse) 0 [0, 1, 0, 1, 0, 1]
                   [(''acme'', ''widget''), (''acme'', ''widget'')] empty_world))
     = [False, True]
   \<and> rejected_reasons (fst (allSettled_syncRepository (github_acme NoResponse) 0 [0, 1, 0, 1, 0, 1]
                   [(''acme'', ''widget''), (''acme'', ''widget'')] empty_world))
     = [duplicateKey]
   \<and> map isl (fst (allSettled_syncRepository (github_acme NoResponse) 0 [0, 0, 0, 0, 0, 0]
                   [(''acme'', ''widget''), (''acme'', ''widget'')] empty_world))
     = [False, False]
   \<and> length (docs (snd (allSettled_syncRepository (github_acme NoResponse) 0 [0, 0, 0, 0, 0, 0]
                   [(''acme'', ''widget''), (''acme'', ''widget'')] empty_world))) = 1"
  by code_simp

subsection \<open>Language percentages\<close>

lemma loadLanguages_run:
  assumes "findById repoId (docs w) = Some repo" and "languages repo = []"
    and "schema_accepts repo"
    and "interceptor (languages_endpoint gh (ownerLogin repo @ ''/'' @ name repo)) = Inr languagesData"
    and "0 < sum_list (map snd languagesData)" and "sum_list (map snd languagesData) < 2 ^ 53"
  shows "loadLanguages gh repoId w =
      (Inr (loadedLanguages languagesData),
       save (repo\<lparr>languages := loadedLanguages languagesData\<rparr>)
         (w\<lparr>requests := requests w @ [LanguagesGet (ownerLogin repo @ ''/'' @ name repo)]\<rparr>))"
    and "findById repoId (docs (snd (loadLanguages gh repoId w)))
           = Some (repo\<lparr>languages := loadedLanguages languagesData\<rparr>)"
proof -
  let ?new = "repo\<lparr>languages := loadedLanguages languagesData\<rparr>"
  have i: "oid repo = repoId"
    using assms(1) find_Some_holds [of "\<lambda>d. oid d = repoId" "docs w" repo] by (simp add: findById_def)
  have "schema_accepts ?new"
    using assms(3) loadedLanguages_valid [OF assms(6,5)] by (simp add: schema_accepts_def)
  then show run: "loadLanguages gh repoId w =
      (Inr (loadedLanguages languagesData),
       save ?new (w\<lparr>requests := requests w @ [LanguagesGet (ownerLogin repo @ ''/'' @ name repo)]\<rparr>))"
    using assms(1,2,4)
    by (simp add: loadLanguages_def getLanguages_def client_get_def save_validated_def Let_def)
  show "findById repoId (docs (snd (loadLanguages gh repoId w))) = Some ?new"
    using i save_doc_by_id [OF assms(1), of ?new] findById_replace [OF assms(1), of ?new]
    by (simp add: run save_def)
qed

lemma list_all2_two:
  "list_all2 P [a, b] ys \<Longrightarrow> \<exists>y1 y2. ys = [y1, y2] \<and> P a y1 \<and> P b y2"
  by (auto simp: list_all2_Cons1)

lemma LanguageEntry_eq:
  "lang_name e = n \<Longrightarrow> bytes e = b \<Longrightarrow> percentage e = p \<Longrightarrow>
   e = \<lparr>lang_name = n, bytes = b, percentage = p\<rparr>"
  by (cases e) simp

lemma tenth_exact:
  assumes "\<bar>rat_of_int k / 10 - x\<bar> \<le> 1 / 20 + 401 / 2 ^ 53"
    and "rat_of_int n - 2 / 5 \<le> 10 * x" and "10 * x \<le> rat_of_int n + 2 / 5"
  shows "k = n"
proof -
  define err :: rat where "err = 401 / 2 ^ 53"
  have "err \<le> 1 / 1000" by (simp add: err_def)
  moreover have "\<bar>rat_of_int k / 10 - x\<bar> \<le> 1 / 20 + err" using assms(1) by (simp only: err_def)
  ultimately have "rat_of_int n - 1 < rat_of_int k" "rat_of_int k < rat_of_int n + 1"
    using assms(2,3) by linarith+
  then have "n - 1 < k" "k < n + 1" by linarith+
  then show ?thesis by simp
qed

lemma whole_exact:
  assumes "\<bar>rat_of_int k - x\<bar> \<le> 1 / 2 + 300 / 2 ^ 53"
    and "rat_of_int n - 2 / 5 \<le> x" and "x \<le> rat_of_int n + 2 / 5"
  shows "k = n"
proof -
  define err :: rat where "err = 300 / 2 ^ 53"
  have "err \<le> 1 / 1000" by (simp add: err_def)
  moreover have "\<bar>rat_of_int k - x\<bar> \<le> 1 / 2 + err" using assms(1) by (simp only: err_def)
  ultimately have "rat_of_int n - 1 < rat_of_int k" "rat_of_int k < rat_of_int n + 1"
    using assms(2,3) by linarith+
  then have "n - 1 < k" "k < n + 1" by linarith+
  then show ?thesis by simp
qed

text \<open>
  The two lists for the byte maps of the examples: \<^verbatim>\<open>{Go: 300, JS: 100}\<close> gives 75 and 25
  in both; \<^verbatim>\<open>{A: 1, B: 2}\<close> gives the doubles nearest to 33.3 and 66.7 in \<^verbatim>\<open>loadLanguages\<close>.
\<close>

lemma loadedLanguages_Go_JS:
  "loadedLanguages [(''Go'', 300), (''JS'', 100)]
     = [\<lparr>lang_name = ''Go'', bytes = Num 300, percentage = Num 75\<rparr>,
        \<lparr>lang_name = ''JS'', bytes = Num 100, percentage = Num 25\<rparr>]"
proof -
  have t: "sum_list (map snd [(''Go'', 300 :: nat), (''JS'', 100)]) = 400"
    by simp
  obtain e1 e2 where l: "loadedLanguages [(''Go'', 300), (''JS'', 100)] = [e1, e2]"
    and e1: "lang_name e1 = ''Go''" "bytes e1 = Num (of_nat 300)"
      "\<exists>k::int. percentage e1 = double (of_int k / 10) \<and> 0 \<le> k \<and> k \<le> 1000
          \<and> \<bar>of_int k / 10 - 100 * (rat_of_nat 300 / rat_of_nat 400)\<bar> \<le> 1 / 20 + 401 / 2 ^ 53"
    and e2: "lang_name e2 = ''JS''" "bytes e2 = Num (of_nat 100)"
      "\<exists>k::int. percentage e2 = double (of_int k / 10) \<and> 0 \<le> k \<and> k \<le> 1000
          \<and> \<bar>of_int k / 10 - 100 * (rat_of_nat 100 / rat_of_nat 400)\<bar> \<le> 1 / 20 + 401 / 2 ^ 53"
    using list_all2_two [OF loadedLanguages_percentages [OF t]] by auto
  obtain k1 :: int where k1: "percentage e1 = double (of_int k1 / 10)"
      "\<bar>of_int k1 / 10 - 100 * (rat_of_nat 300 / rat_of_nat 400)\<bar> \<le> 1 / 20 + 401 / 2 ^ 53"
    using e1(3) by blast
  obtain k2 :: int where k2: "percentage e2 = double (of_int k2 / 10)"
      "\<bar>of_int k2 / 10 - 100 * (rat_of_nat 100 / rat_of_nat 400)\<bar> \<le> 1 / 20 + 401 / 2 ^ 53"
    using e2(3) by blast
  have "k1 = 750" by (rule tenth_exact [OF k1(2)]) simp_all
  then have p1: "percentage e1 = Num 75"
    using k1(1) double_of_nat [of 75] by simp
  have "k2 = 250" by (rule tenth_exact [OF k2(2)]) simp_all
  then have p2: "percentage e2 = Num 25"
    using k2(1) double_of_nat [of 25] by simp
  show ?thesis
    using l LanguageEntry_eq [OF e1(1,2) p1] LanguageEntry_eq [OF e2(1,2) p2] by simp
qed

lemma syncLanguages_Go_JS:
  "syncLanguages [(''Go'', 300), (''JS'', 100)]
     = [\<lparr>lang_name = ''Go'', bytes = Num 300, percentage = Num 75\<rparr>,
        \<lparr>lang_name = ''JS'', bytes = Num 100, percentage = Num 25\<rparr>]"
proof -
  have t: "sum_list (map snd [(''Go'', 300 :: nat), (''JS'', 100)]) = 400"
    by simp
  obtain e1 e2 where l: "syncLanguages [(''Go'', 300), (''JS'', 100)] = [e1, e2]"
    and e1: "lang_name e1 = ''Go''" "bytes e1 = Num (of_nat 300)"
      "\<exists>k::int. percentage e1 = Num (of_int k) \<and> 0 \<le> k \<and> k \<le> 100
          \<and> \<bar>of_int k - 100 * (rat_of_nat 300 / rat_of_nat 400)\<bar> \<le> 1 / 2 + 300 / 2 ^ 53"
    and e2: "lang_name e2 = ''JS''" "bytes e2 = Num (of_nat 100)"
      "\<exists>k::int. percentage e2 = Num (of_int k) \<and> 0 \<le> k \<and> k \<le> 100
          \<and> \<bar>of_int k - 100 * (rat_of_nat 100 / rat_of_nat 400)\<bar> \<le> 1 / 2 + 300 / 2 ^ 53"
    using list_all2_two [OF syncLanguages_percentages [OF t]] by auto
  obtain k1 :: int where k1: "percentage e1 = Num (of_int k1)"
      "\<bar>of_int k1 - 100 * (rat_of_nat 300 / rat_of_nat 400)\<bar> \<le> 1 / 2 + 300 / 2 ^ 53"
    using e1(3) by blast
  obtain k2 :: int where k2: "percentage e2 = Num (of_int k2)"
      "\<bar>of_int k2 - 100 * (rat_of_nat 100 / rat_of_nat 400)\<bar> \<le> 1 / 2 + 300 / 2 ^ 53"
    using e2(3) by blast
  have "k1 = 75" by (rule whole_exact [OF k1(2)]) simp_all
  then have p1: "percentage e1 = Num 75"
    using k1(1) by simp
  have "k2 = 25" by (rule whole_exact [OF k2(2)]) simp_all
  then have p2: "percentage e2 = Num 25"
    using k2(1) by simp
  show ?thesis
    using l LanguageEntry_eq [OF e1(1,2) p1] LanguageEntry_eq [OF e2(1,2) p2] by simp
qed

lemma loadedLanguages_A_B:
  "loadedLanguages [(''A'', 1), (''B'', 2)]
     = [\<lparr>lang_name = ''A'', bytes = Num 1, percentage = double (333 / 10)\<rparr>,
        \<lparr>lang_name = ''B'', bytes = Num 2, percentage = double (667 / 10)\<rparr>]"
proof -
  have t: "sum_list (map snd [(''A'', 1 :: nat), (''B'', 2)]) = 3"
    by simp
  obtain e1 e2 where l: "loadedLanguages [(''A'', 1), (''B'', 2)] = [e1, e2]"
    and e1: "lang_name e1 = ''A''" "bytes e1 = Num (of_nat 1)"
      "\<exists>k::int. percentage e1 = double (of_int k / 10) \<and> 0 \<le> k \<and> k \<le> 1000
          \<and> \<bar>of_int k / 10 - 100 * (rat_of_nat 1 / rat_of_nat 3)\<bar> \<le> 1 / 20 + 401 / 2 ^ 53"
    and e2: "lang_name e2 = ''B''" "bytes e2 = Num (of_nat 2)"
      "\<exists>k::int. percentage e2 = double (of_int k / 10) \<and> 0 \<le> k \<and> k \<le> 1000
          \<and> \<bar>of_int k / 10 - 100 * (rat_of_nat 2 / rat_of_nat 3)\<bar> \<le> 1 / 20 + 401 / 2 ^ 53"
    using list_all2_two [OF loadedLanguages_percentages [OF t]] by auto
  obtain k1 :: int where k1: "percentage e1 = double (of_int k1 / 10)"
      "\<bar>of_int k1 / 10 - 100 * (rat_of_nat 1 / rat_of_nat 3)\<bar> \<le> 1 / 20 + 401 / 2 ^ 53"
    using e1(3) by blast
  obtain k2 :: int where k2: "percentage e2 = double (of_int k2 / 10)"
      "\<bar>of_int k2 / 10 - 100 * (rat_of_nat 2 / rat_of_nat 3)\<bar> \<le> 1 / 20 + 401 / 2 ^ 53"
    using e2(3) by blast
  have "k1 = 333" by (rule tenth_exact [OF k1(2)]) simp_all
  then have p1: "percentage e1 = double (333 / 10)"
    using k1(1) by simp
  have "k2 = 667" by (rule tenth_exact [OF k2(2)]) simp_all
  then have p2: "percentage e2 = double (667 / 10)"
    using k2(1) by simp
  show ?thesis
    using l LanguageEntry_eq [OF e1(1,2) p1] LanguageEntry_eq [OF e2(1,2) p2] by simp
qed

lemma double_near:
  assumes "1 \<le> x" and "x \<le> 2048"
  shows "\<exists>v. double x = Num v \<and> \<bar>v - x\<bar> \<le> 1 / 1000000"
proof -
  have "(2::rat) powi (- 60) \<le> 1" by simp
  then obtain v where v: "double x = Num v" "\<bar>v - x\<bar> \<le> x / 2 ^ 53"
    using double_close [of x] assms by (meson order_trans)
  have "x / 2 ^ 53 \<le> 2048 / 2 ^ 53"
    using assms(2) by (simp add: divide_right_mono)
  also have "\<dots> \<le> (1 / 1000000 :: rat)" by simp
  finally show ?thesis using v by (intro exI [of _ v]) simp
qed

text \<open>
  C5 as stated fails for \<^verbatim>\<open>loadLanguages\<close>, which rounds to one decimal place: for the byte
  map \<^verbatim>\<open>{A: 1, B: 2}\<close> it returns the doubles nearest to 33.3 and 66.7, not the whole
  percents 33 and 67.
\<close>

theorem loadLanguages_one_decimal_counterexample:
  "fst (loadLanguages (github_languages [(''A'', 1), (''B'', 2)]) 1 widget_world)
     = Inr [\<lparr>lang_name = ''A'', bytes = Num 1, percentage = double (333 / 10)\<rparr>,
            \<lparr>lang_name = ''B'', bytes = Num 2, percentage = double (667 / 10)\<rparr>]
   \<and> double (333 / 10) \<noteq> Num 33 \<and> double (667 / 10) \<noteq> Num 67"
proof -
  have h1: "findById 1 (docs widget_world) = Some stored_widget"
    by (simp add: findById_def widget_world_def stored_widget_def updateFromGitHub_def
        new_RepoSnapshot_def)
  have h2: "languages stored_widget = []" and h3: "schema_accepts stored_widget"
    by (simp_all add: stored_widget_def updateFromGitHub_def new_RepoSnapshot_def schema_accepts_def)
  have h4: "interceptor (languages_endpoint (github_languages [(''A'', 1), (''B'', 2)])
         (ownerLogin stored_widget @ ''/'' @ name stored_widget))
       = Inr [(''A'', 1), (''B'', 2)]"
    by (simp add: github_languages_def)
  have h5: "0 < sum_list (map snd [(''A'', 1 :: nat), (''B'', 2)])"
    and h6: "sum_list (map snd [(''A'', 1 :: nat), (''B'', 2)]) < 2 ^ 53"
    by simp_all
  have "fst (loadLanguages (github_languages [(''A'', 1), (''B'', 2)]) 1 widget_world)
     = Inr (loadedLanguages [(''A'', 1), (''B'', 2)])"
    using loadLanguages_run(1) [OF h1 h2 h3 h4 h5 h6] by simp
  moreover obtain v where "double (333 / 10) = Num v" "\<bar>v - 333 / 10\<bar> \<le> 1 / 1000000"
    using double_near [of "333 / 10"] by auto
  then have "double (333 / 10) \<noteq> Num 33" by auto
  moreover obtain v' where "double (667 / 10) = Num v'" "\<bar>v' - 667 / 10\<bar> \<le> 1 / 1000000"
    using double_near [of "667 / 10"] by auto
  then have "double (667 / 10) \<noteq> Num 67" by auto
  ultimately show ?thesis
    by (simp only: loadedLanguages_A_B simp_thms)
qed

text \<open>
  C5, amended. For a stored, valid repository without cached languages and a fetched byte
  map with a positive total below \<open>2\<^sup>5\<^sup>3\<close>, \<^verbatim>\<open>loadLanguages\<close> stores and returns one entry
  per language, in the order of the map, with the language's name and bytes and a
  percentage that is the double nearest to \<open>k / 10\<close> for a whole number \<open>k\<close> from 0 to
  1000 with \<open>k / 10\<close> within \<open>0.05 + 401 / 2\<^sup>5\<^sup>3\<close> of \<open>bytes / total * 100\<close>. The list that
  \<^verbatim>\<open>syncRepository\<close> builds from the same map has whole percents from 0 to 100 within
  \<open>0.5 + 300 / 2\<^sup>5\<^sup>3\<close> of \<open>bytes / total * 100\<close>, and \<^verbatim>\<open>syncRepository\<close> stores and returns
  that list when the repository has no cached languages, the stored documents are valid
  and a README that GitHub returns has at most 50000 characters.
\<close>

theorem language_percentages:
  assumes "findById repoId (docs w) = Some repo" and "languages repo = []"
    and "schema_accepts repo"
    and "interceptor (languages_endpoint gh (ownerLogin repo @ ''/'' @ name repo)) = Inr languagesData"
    and "0 < sum_list (map snd languagesData)" and "sum_list (map snd languagesData) < 2 ^ 53"
  shows "fst (loadLanguages gh repoId w) = Inr (loadedLanguages languagesData)
     \<and> findById repoId (docs (snd (loadLanguages gh repoId w)))
         = Some (repo\<lparr>languages := loadedLanguages languagesData\<rparr>)
     \<and> list_all2
         (\<lambda>(name', bytes') entry.
            lang_name entry = name' \<and> bytes entry = Num (of_nat bytes')
            \<and> (\<exists>k::int. percentage entry = double (of_int k / 10) \<and> 0 \<le> k \<and> k \<le> 1000
                  \<and> \<bar>of_int k / 10
                       - 100 * (rat_of_nat bytes' / rat_of_nat (sum_list (map snd languagesData)))\<bar>
                      \<le> 1 / 20 + 401 / 2 ^ 53))
         languagesData (loadedLanguages languagesData)
     \<and> list_all2
         (\<lambda>(name', bytes') entry.
            lang_name entry = name' \<and> bytes entry = Num (of_nat bytes')
            \<and> (\<exists>k::int. percentage entry = Num (of_int k) \<and> 0 \<le> k \<and> k \<le> 100
                  \<and> \<bar>of_int k
                       - 100 * (rat_of_nat bytes' / rat_of_nat (sum_list (map snd languagesData)))\<bar>
                      \<le> 1 / 2 + 300 / 2 ^ 53))
         languagesData (syncLanguages languagesData)
     \<and> (interceptor (repos_endpoint gh' (owner @ ''/'' @ rname)) = Inr g
          \<and> interceptor (languages_endpoint gh' (owner @ ''/'' @ rname)) = Inr languagesData
          \<and> list_all schema_accepts (docs w')
          \<and> (case findOne_githubId (gh_id g) (docs w') of Some d \<Rightarrow> languages d = [] | None \<Rightarrow> True)
          \<and> (\<forall>text'. interceptor (readme_endpoint gh' (owner @ ''/'' @ rname)) = Inr text'
                \<longrightarrow> length text' \<le> 50000) \<longrightarrow>
        (\<exists>s w''. syncRepository gh' now owner rname w' = (Inr s, w'') \<and> s \<in> set (docs w'')
            \<and> githubId s = gh_id g \<and> languages s = syncLanguages languagesData))"
proof (intro conjI impI)
  show "fst (loadLanguages gh repoId w) = Inr (loadedLanguages languagesData)"
    using loadLanguages_run(1) [OF assms] by simp
  show "findById repoId (docs (snd (loadLanguages gh repoId w)))
         = Some (repo\<lparr>languages := loadedLanguages languagesData\<rparr>)"
    by (rule loadLanguages_run(2) [OF assms])
  show "list_all2
         (\<lambda>(name', bytes') entry.
            lang_name entry = name' \<and> bytes entry = Num (of_nat bytes')
            \<and> (\<exists>k::int. percentage entry = double (of_int k / 10) \<and> 0 \<le> k \<and> k \<le> 1000
                  \<and> \<bar>of_int k / 10
                       - 100 * (rat_of_nat bytes' / rat_of_nat (sum_list (map snd languagesData)))\<bar>
                      \<le> 1 / 20 + 401 / 2 ^ 53))
         languagesData (loadedLanguages languagesData)"
    by (rule loadedLanguages_percentages [OF refl assms(5,6)])
  show "list_all2
         (\<lambda>(name', bytes') entry.
            lang_name entry = name' \<and> bytes entry = Num (of_nat bytes')
            \<and> (\<exists>k::int. percentage entry = Num (of_int k) \<and> 0 \<le> k \<and> k \<le> 100
                  \<and> \<bar>of_int k
                       - 100 * (rat_of_nat bytes' / rat_of_nat (sum_list (map snd languagesData)))\<bar>
                      \<le> 1 / 2 + 300 / 2 ^ 53))
         languagesData (syncLanguages languagesData)"
    by (rule syncLanguages_percentages [OF refl assms(5,6)])
next
  assume a: "interceptor (repos_endpoint gh' (owner @ ''/'' @ rname)) = Inr g
          \<and> interceptor (languages_endpoint gh' (owner @ ''/'' @ rname)) = Inr languagesData
          \<and> list_all schema_accepts (docs w')
          \<and> (case findOne_githubId (gh_id g) (docs w') of Some d \<Rightarrow> languages d = [] | None \<Rightarrow> True)
          \<and> (\<forall>text'. interceptor (readme_endpoint gh' (owner @ ''/'' @ rname)) = Inr text'
                \<longrightarrow> length text' \<le> 50000)"
  then have get: "interceptor (repos_endpoint gh' (owner @ ''/'' @ rname)) = Inr g"
    and langs: "interceptor (languages_endpoint gh' (owner @ ''/'' @ rname)) = Inr languagesData"
    and store: "list_all schema_accepts (docs w')"
    and none: "case findOne_githubId (gh_id g) (docs w') of Some d \<Rightarrow> languages d = [] | None \<Rightarrow> True"
    and short: "\<And>text'. interceptor (readme_endpoint gh' (owner @ ''/'' @ rname)) = Inr text'
                  \<Longrightarrow> length text' \<le> 50000"
    by blast+
  have small: "\<And>ls. interceptor (languages_endpoint gh' (owner @ ''/'' @ rname)) = Inr ls
                  \<Longrightarrow> sum_list (map snd ls) < 2 ^ 53"
    using langs assms(6) by simp
  obtain s w'' where s: "syncRepository gh' now owner rname w' = (Inr s, w'')"
      "s \<in> set (docs w'')" "githubId s = gh_id g"
      "(case findOne_githubId (gh_id g) (docs w') of Some d \<Rightarrow> languages d = [] | None \<Rightarrow> True) \<longrightarrow>
          (case interceptor (languages_endpoint gh' (owner @ ''/'' @ rname)) of
             Inr ls \<Rightarrow> languages s = syncLanguages ls
           | Inl e \<Rightarrow> languages s = [])"
    using syncRepository_succeeds [OF get store short small, of now] by blast
  have "languages s = syncLanguages languagesData"
    using s(4) none langs by simp
  then show "\<exists>s w''. syncRepository gh' now owner rname w' = (Inr s, w'') \<and> s \<in> set (docs w'')
            \<and> githubId s = gh_id g \<and> languages s = syncLanguages languagesData"
    using s(1-3) by blast
qed

theorem language_percentages_witness:
  "findById 1 (docs widget_world) = Some stored_widget \<and> languages stored_widget = []
   \<and> schema_accepts stored_widget
   \<and> interceptor (languages_endpoint (github_languages [(''Go'', 300), (''JS'', 100)])
         (ownerLogin stored_widget @ ''/'' @ name stored_widget))
       = Inr [(''Go'', 300), (''JS'', 100)]
   \<and> 0 < sum_list (map snd [(''Go'', 300 :: nat), (''JS'', 100)])
   \<and> sum_list (map snd [(''Go'', 300 :: nat), (''JS'', 100)]) < 2 ^ 53
   \<and> fst (loadLanguages (github_languages [(''Go'', 300), (''JS'', 100)]) 1 widget_world)
       = Inr [\<lparr>lang_name = ''Go'', bytes = Num 300, percentage = Num 75\<rparr>,
              \<lparr>lang_name = ''JS'', bytes = Num 100, percentage = Num 25\<rparr>]
   \<and> syncLanguages [(''Go'', 300), (''JS'', 100)]
       = [\<lparr>lang_name = ''Go'', bytes = Num 300, percentage = Num 75\<rparr>,
          \<lparr>lang_name = ''JS'', bytes = Num 100, percentage = Num 25\<rparr>]
   \<and> interceptor (repos_endpoint github_polyglot (''acme'' @ ''/'' @ ''widget'')) = Inr widget
   \<and> interceptor (languages_endpoint github_polyglot (''acme'' @ ''/'' @ ''widget''))
       = Inr [(''Go'', 300), (''JS'', 100)]
   \<and> list_all schema_accepts (docs empty_world)
   \<and> findOne_githubId (gh_id widget) (docs empty_world) = None
   \<and> interceptor (readme_endpoint github_polyglot (''acme'' @ ''/'' @ ''widget''))
       = Inl (notFound ''GitHub resource not found'')
   \<and> (\<exists>s w''. syncRepository github_polyglot 0 ''acme'' ''widget'' empty_world = (Inr s, w'')
          \<and> s \<in> set (docs w'') \<and> githubId s = 42
          \<and> languages s = [\<lparr>lang_name = ''Go'', bytes = Num 300, percentage = Num 75\<rparr>,
                           \<lparr>lang_name = ''JS'', bytes = Num 100, percentage = Num 25\<rparr>])"
proof -
  have h1: "findById 1 (docs widget_world) = Some stored_widget"
    by (simp add: findById_def widget_world_def stored_widget_def updateFromGitHub_def
        new_RepoSnapshot_def)
  have h2: "languages stored_widget = []" and h3: "schema_accepts stored_widget"
    by (simp_all add: stored_widget_def updateFromGitHub_def new_RepoSnapshot_def schema_accepts_def)
  have h4: "interceptor (languages_endpoint (github_languages [(''Go'', 300), (''JS'', 100)])
         (ownerLogin stored_widget @ ''/'' @ name stored_widget))
       = Inr [(''Go'', 300), (''JS'', 100)]"
    by (simp add: github_languages_def)
  have h5: "0 < sum_list (map snd [(''Go'', 300 :: nat), (''JS'', 100)])"
    and h6: "sum_list (map snd [(''Go'', 300 :: nat), (''JS'', 100)]) < 2 ^ 53"
    by simp_all
  have g1: "interceptor (repos_endpoint github_polyglot (''acme'' @ ''/'' @ ''widget'')) = Inr widget"
    and g2: "interceptor (languages_endpoint github_polyglot (''acme'' @ ''/'' @ ''widget''))
       = Inr [(''Go'', 300), (''JS'', 100)]"
    and g3: "list_all schema_accepts (docs empty_world)"
    and g4: "findOne_githubId (gh_id widget) (docs empty_world) = None"
    and g5: "interceptor (readme_endpoint github_polyglot (''acme'' @ ''/'' @ ''widget''))
       = Inl (notFound ''GitHub resource not found'')"
    by (simp_all add: github_polyglot_def github_acme_def empty_world_def findOne_githubId_def)
  have id: "gh_id widget = 42"
    by (simp add: widget_def)
  note t = language_percentages [OF h1 h2 h3 h4 h5 h6, where gh' = github_polyglot
      and owner = "''acme''" and rname = "''widget''" and g = widget and w' = empty_world and now = 0]
  have "fst (loadLanguages (github_languages [(''Go'', 300), (''JS'', 100)]) 1 widget_world)
       = Inr (loadedLanguages [(''Go'', 300), (''JS'', 100)])"
    using t by (rule conjunct1)
  moreover have "\<exists>s w''. syncRepository github_polyglot 0 ''acme'' ''widget'' empty_world = (Inr s, w'')
          \<and> s \<in> set (docs w'') \<and> githubId s = 42
          \<and> languages s = syncLanguages [(''Go'', 300), (''JS'', 100)]"
    using t g1 g2 g3 g4 g5 by (simp add: id)
  ultimately show ?thesis
    using h1 h2 h3 h4 h5 h6 g1 g2 g3 g4 g5
    by (simp only: loadedLanguages_Go_JS syncLanguages_Go_JS simp_thms)
qed

subsection \<open>Searching the cache\<close>











end
